theory Spec2Isabelle
  imports Complex_Main
begin

section \<open>Data model of EncodeManageModel.ts\<close>

text \<open>
  The encode manager is a single-threaded class whose methods are \<^verbatim>\<open>async\<close>.
  Each method is embedded as the sequence of its synchronous segments: the code that
  runs up to an \<^verbatim>\<open>await\<close>, and the code that runs when the awaited promise settles.
  The fields of the class are one record that every segment takes and returns; what the
  code sends to its collaborators (logger, event emitters, timers, file system, process
  utilities) is appended, in order, to the field \<open>effects\<close>.

  Embedded are the execution gate, \<^verbatim>\<open>push\<close>, \<^verbatim>\<open>checkQueue\<close>, \<^verbatim>\<open>addQueue\<close> with the handler
  of the process's exit, \<^verbatim>\<open>finalize\<close> and \<^verbatim>\<open>cancel\<close>. Left out are \<^verbatim>\<open>getRecordedIndex\<close> and
  \<^verbatim>\<open>cancelEncodeByRecordedId\<close>, the environment variables given to the encoder, and the
  debug logging of the encoder's \<^verbatim>\<open>stderr\<close>.

  JavaScript numbers that only ever hold integers here (identifiers, priorities, the
  concurrency limit) are \<open>int\<close>. The recording's duration and the profile's rate are
  \<open>real\<close>: a finite double is a real number. Their product is not the exact product of
  reals: the runtime multiplies doubles and rounds. The multiplication is therefore an
  argument, \<open>number_times\<close> among the collaborators, and nothing is assumed of it.
\<close>

text \<open>\<^verbatim>\<open>interface ExeQueueData { id: string; priority: number }\<close>
  (the field \<^verbatim>\<open>id\<close> is named \<open>qid\<close>: \<open>id\<close> is the identity function of HOL).\<close>

record ExeQueueData =
  qid :: string
  priority :: int

text \<open>\<^verbatim>\<open>apid.AddEncodeProgramOption\<close>: the request of \<^verbatim>\<open>push\<close>, with the fields the
  manager reads.\<close>

record AddEncodeProgramOption =
  recordedId :: int
  sourceVideoFileId :: int
  mode :: string
  parentDir :: string
  directory :: "string option"
  removeOriginal :: bool

text \<open>\<^verbatim>\<open>interface EncodeQueueItem extends apid.AddEncodeProgramOption { encodeId }\<close>\<close>

record EncodeQueueItem = AddEncodeProgramOption +
  encodeId :: int

text \<open>What the callback given to \<^verbatim>\<open>setTimeout\<close> in \<^verbatim>\<open>addQueue\<close> does when it runs: it logs
  the time out of the job and calls \<^verbatim>\<open>cancel\<close> on the job's identifier.\<close>

datatype TimerCallback = EncodeTimeOut int "string option"

text \<open>A timer made by \<^verbatim>\<open>setTimeout(callback, delay)\<close>: the callback and the number passed
  as the delay. The platform reads that number as milliseconds; when the platform then
  runs the callback is not part of the source and not part of this record.\<close>

record Timer =
  callback :: TimerCallback
  delay :: real

text \<open>\<^verbatim>\<open>interface RunningQueueItem\<close>; a \<^verbatim>\<open>ChildProcess\<close> is a handle, here a number.\<close>

record RunningQueueItem =
  process :: nat
  encodeProgram :: EncodeQueueItem
  isCanceld :: bool
  timerId :: Timer

text \<open>The argument of \<^verbatim>\<open>encodeEvent.emitFinishEncode\<close>.\<close>

record FinishEncodeInfo =
  fin_recordedId :: int
  fin_videoFileId :: int
  fin_parentDirName :: string
  fin_filePath :: "string option"
  fin_fullOutputPath :: "string option"
  fin_mode :: string
  fin_removeOriginal :: bool

text \<open>The messages thrown with \<^verbatim>\<open>new Error(...)\<close>, spelled as in the source, and the errors
  a collaborator rejects with.\<close>

datatype Error =
    CncurrentEncodeNumIsZero
  | GetExecutionTimeoutError
  | VideoFileIdIsNotFound
  | RecordedIsNotFound
  | VideoPathIsNotFound
  | EncodeCommandIsNotFound
  | parentDirIsNotFound
  | GetFilePathError
  | StopEncodeError
  | ExternalError string

datatype LogLevel = Info | Error | Fatal | Debug

text \<open>The log lines of the source, one constructor for each template string, with the
  interpolated values as arguments.\<close>

datatype LogMsg =
    GetExecutionError int
  | AddNewEncode int
  | CreateEncodeProcessError int
  | ThrownError Error
  | VideoFileIsNotFound string
  | Mkdirp string
  | EncodeStart string string string "string option"
  | EncodeProcessIsTimeOut int "string option"
  | ExitCode "int option" "string option"
  | EncodeItemIsRemoved int
  | CanceldEncode int
  | EncodeFailed int "string option"
  | SuccessfullyEncod int "string option"
  | DeleteEncodeOutputFile string
  | DeleteEncodeOutputFileFailed string
  | ParentDirConfigIsNotFound string
  | CancelEncode int
  | KillEncodeProcessFailed int

text \<open>What the manager sends out, in the order it does.\<close>

datatype Effect =
    Log LogLevel LogMsg
  | EmitUnlock string
  | EmitAddEncode int
  | EmitFinishEncode FinishEncodeInfo
  | EmitErrorEncode
  | NextTickEmitNeedsCheckQueue
  | Sleep nat
  | Unlink string
  | ClearTimeout Timer
  | Kill nat

text \<open>The mutable fields of the class. \<open>listeners\<close> holds the ticket identifiers whose
  \<^verbatim>\<open>onDone\<close> is registered on \<^verbatim>\<open>exeEventEmitter\<close>.\<close>

record EncodeManageModel =
  lockId :: "string option"
  exeQueue :: "ExeQueueData list"
  listeners :: "string list"
  concurrentEncodeNum :: int
  waitQueue :: "EncodeQueueItem list"
  runningQueue :: "RunningQueueItem list"
  idCnt :: int
  effects :: "Effect list"

text \<open>The constants of \<^verbatim>\<open>namespace EncodeManageModel\<close>.\<close>

definition CANCEL_ENCODE_PRIPORITY :: int where
  "CANCEL_ENCODE_PRIPORITY = 1"

definition ADD_ENCODE_PRIPORITY :: int where
  "ADD_ENCODE_PRIPORITY = 2"

definition CREATE_ENCODING_PROCESS_PRIPORITY :: int where
  "CREATE_ENCODING_PROCESS_PRIPORITY = 2"

definition CLEAR_QUEUE_PRIPORITY :: int where
  "CLEAR_QUEUE_PRIPORITY = 3"

definition ENCODE_PRIPORITY :: int where
  "ENCODE_PRIPORITY = 10"

definition DEFAULT_TIMEOUT_RATE :: real where
  "DEFAULT_TIMEOUT_RATE = 4.0"

text \<open>\<^verbatim>\<open>Number.MAX_SAFE_INTEGER\<close>\<close>

definition MAX_SAFE_INTEGER :: int where
  "MAX_SAFE_INTEGER = 2 ^ 53 - 1"

text \<open>The fields as the class initialises them; the constructor reads
  \<^verbatim>\<open>concurrentEncodeNum\<close> from the configuration.\<close>

definition initialModel :: "int \<Rightarrow> EncodeManageModel" where
  "initialModel n =
     \<lparr> lockId = None, exeQueue = [], listeners = [], concurrentEncodeNum = n,
       waitQueue = [], runningQueue = [], idCnt = 1, effects = [] \<rparr>"

definition emit :: "Effect \<Rightarrow> EncodeManageModel \<Rightarrow> EncodeManageModel" where
  "emit e s = s\<lparr> effects := effects s @ [e] \<rparr>"

section \<open>The execution gate\<close>

text \<open>The loop of \<^verbatim>\<open>getExecution\<close> that looks for the place of the new ticket:
  \<^verbatim>\<open>for (; position < len; position++) { if (q.priority < priority) break; }\<close>\<close>

function insertPosition :: "ExeQueueData list \<Rightarrow> int \<Rightarrow> nat \<Rightarrow> nat" where
  "insertPosition q p position =
     (if position < length q
      then (if priority (q ! position) < p then position
            else insertPosition q p (Suc position))
      else position)"
  by pat_completeness auto
termination
  by (relation "measure (\<lambda>(q, p, position). length q - position)") auto

text \<open>\<^verbatim>\<open>this.exeQueue.splice(position, 0, exeQueueData)\<close> with the position the loop found.\<close>

definition insertTicket :: "ExeQueueData \<Rightarrow> ExeQueueData list \<Rightarrow> ExeQueueData list" where
  "insertTicket d q =
     (let position = insertPosition q (priority d) 0
      in take position q @ [d] @ drop position q)"

text \<open>\<^verbatim>\<open>unLockExecution(id)\<close>. Emitting \<^verbatim>\<open>UNLOCK_EVENT\<close> runs every registered \<^verbatim>\<open>onDone\<close>;
  the ones whose ticket has the emitted identifier resolve their promise and remove
  themselves.\<close>

definition unLockExecution :: "string \<Rightarrow> EncodeManageModel \<Rightarrow> EncodeManageModel" where
  "unLockExecution i s =
     (let s1 = (if lockId s = Some i then s\<lparr> lockId := None \<rparr> else s)
      in if lockId s1 = None
         then (case exeQueue s1 of
                 [] \<Rightarrow> s1
               | q # rest \<Rightarrow>
                   s1\<lparr> exeQueue := rest,
                       lockId := Some (qid q),
                       effects := effects s1 @ [EmitUnlock (qid q)],
                       listeners := filter (\<lambda>l. l \<noteq> qid q) (listeners s1) \<rparr>)
         else s1)"

text \<open>The synchronous part of \<^verbatim>\<open>getExecution(priority)\<close>: the ticket is made and inserted,
  \<^verbatim>\<open>onDone\<close> is registered, and \<^verbatim>\<open>unLockExecution\<close> is called with the new identifier.
  The identifier is built from the clock and a random number, so it is an argument.\<close>

definition getExecution :: "int \<Rightarrow> string \<Rightarrow> EncodeManageModel \<Rightarrow> EncodeManageModel" where
  "getExecution p newId s =
     (let exeQueueData = \<lparr> qid = newId, priority = p \<rparr>;
          s1 = s\<lparr> exeQueue := insertTicket exeQueueData (exeQueue s) \<rparr>;
          s2 = s1\<lparr> listeners := listeners s1 @ [newId] \<rparr>
      in unLockExecution newId s2)"

text \<open>The timer of \<^verbatim>\<open>getExecution\<close> running out before the ticket was granted: the error
  is logged, \<^verbatim>\<open>onDone\<close> is removed and the promise is rejected. The ticket stays in
  \<^verbatim>\<open>exeQueue\<close>.\<close>

definition getExecutionTimeout :: "int \<Rightarrow> string \<Rightarrow> EncodeManageModel \<Rightarrow> EncodeManageModel" where
  "getExecutionTimeout p newId s =
     (emit (Log Error (GetExecutionError p)) s)\<lparr> listeners := remove1 newId (listeners s) \<rparr>"

text \<open>How an \<^verbatim>\<open>await this.getExecution(...)\<close> ends: with the ticket, or with the rejection.\<close>

datatype GateResult = Acquired | TimedOut

section \<open>Collaborators\<close>

text \<open>The record a lookup in \<^verbatim>\<open>recordedDB\<close> gives, with the fields \<^verbatim>\<open>addQueue\<close> uses for the
  log line and the timer (\<^verbatim>\<open>id\<close> and \<^verbatim>\<open>name\<close> carry the suffix \<open>_r\<close>).\<close>

record Recorded =
  id_r :: int
  name_r :: string
  duration :: real

text \<open>An entry of \<^verbatim>\<open>config.encode\<close>; \<^verbatim>\<open>suffix\<close> and \<^verbatim>\<open>rate\<close> may be undefined.\<close>

record EncodeCmd =
  name :: string
  cmd :: string
  suffix :: "string option"
  rate :: "real option"

text \<open>The argument of \<^verbatim>\<open>processManager.create\<close>, without the environment variables of
  \<^verbatim>\<open>spawnOption\<close>.\<close>

record CreateOption =
  c_input :: string
  c_output :: "string option"
  c_cmd :: string
  c_priority :: int

text \<open>The objects injected into the class and the library functions it calls. None of
  them is part of this file of the repository, so each is an argument: a lookup gives
  its result, an operation that can reject gives \<open>Some\<close> of the error it rejects with.
  \<open>number_times\<close> is the operator \<^verbatim>\<open>*\<close> of the language on two numbers.\<close>

record Collaborators =
  videoFileDB_findId :: "int \<Rightarrow> unit option"
  recordedDB_findId :: "int \<Rightarrow> Recorded option"
  getFullFilePath :: "int \<Rightarrow> string option"
  getParentDirPath :: "string \<Rightarrow> string option"
  config_encode :: "EncodeCmd list"
  processManager_create :: "CreateOption \<Rightarrow> Error + nat"
  fileUtil_stat :: "string \<Rightarrow> Error option"
  fileUtil_mkdir :: "string \<Rightarrow> Error option"
  fileUtil_unlink :: "string \<Rightarrow> Error option"
  processUtil_kill :: "nat \<Rightarrow> Error option"
  path_basename :: "string \<Rightarrow> string"
  path_basename_ext :: "string \<Rightarrow> string \<Rightarrow> string"
  path_extname :: "string \<Rightarrow> string"
  path_join :: "string \<Rightarrow> string \<Rightarrow> string"
  number_times :: "real \<Rightarrow> real \<Rightarrow> real"

section \<open>Lookups in the queues\<close>

text \<open>\<^verbatim>\<open>getRunnginQueueItem(encodeId)\<close>\<close>

definition getRunnginQueueItem :: "int \<Rightarrow> EncodeManageModel \<Rightarrow> RunningQueueItem option" where
  "getRunnginQueueItem i s = find (\<lambda>q. encodeId (encodeProgram q) = i) (runningQueue s)"

text \<open>\<^verbatim>\<open>hasSamVideoFileIdItem(videoFileId)\<close>\<close>

definition hasSamVideoFileIdItem :: "int \<Rightarrow> EncodeManageModel \<Rightarrow> bool" where
  "hasSamVideoFileIdItem videoFileId s =
     (case find (\<lambda>q. sourceVideoFileId (encodeProgram q) = videoFileId) (runningQueue s) of
        Some runningItem \<Rightarrow> True
      | None \<Rightarrow>
          (case find (\<lambda>q. sourceVideoFileId q = videoFileId) (waitQueue s) of
             Some waitItem \<Rightarrow> True
           | None \<Rightarrow> False))"

section \<open>finalize\<close>

text \<open>\<^verbatim>\<open>finalize(encodeId)\<close> up to its \<^verbatim>\<open>await\<close>: the ticket of priority
  \<^verbatim>\<open>CLEAR_QUEUE_PRIPORITY\<close> is requested.\<close>

definition finalize_start :: "string \<Rightarrow> EncodeManageModel \<Rightarrow> EncodeManageModel" where
  "finalize_start newId s = getExecution CLEAR_QUEUE_PRIPORITY newId s"

text \<open>\<^verbatim>\<open>finalize(encodeId)\<close> after its \<^verbatim>\<open>await\<close>. The first component is the error the method
  rejects with, if any. The callback given to \<^verbatim>\<open>process.nextTick\<close> runs later; giving it
  is the effect \<open>NextTickEmitNeedsCheckQueue\<close>.\<close>

definition finalize_resume ::
  "GateResult \<Rightarrow> string \<Rightarrow> int \<Rightarrow> EncodeManageModel \<Rightarrow> Error option \<times> EncodeManageModel" where
  "finalize_resume g exeId i s =
     (case g of
        TimedOut \<Rightarrow> (Some GetExecutionTimeoutError, getExecutionTimeout CLEAR_QUEUE_PRIPORITY exeId s)
      | Acquired \<Rightarrow>
          (let s1 = (case getRunnginQueueItem i s of
                       Some queueItem \<Rightarrow> emit (ClearTimeout (timerId queueItem)) s
                     | None \<Rightarrow> s);
               s2 = s1\<lparr> runningQueue :=
                         filter (\<lambda>q. encodeId (encodeProgram q) \<noteq> i) (runningQueue s1) \<rparr>;
               s3 = unLockExecution exeId s2
           in (None, emit NextTickEmitNeedsCheckQueue s3)))"

section \<open>checkQueue and addQueue\<close>

text \<open>\<^verbatim>\<open>checkQueue()\<close> up to its first \<^verbatim>\<open>await\<close>.\<close>

definition checkQueue_start :: "string \<Rightarrow> EncodeManageModel \<Rightarrow> EncodeManageModel" where
  "checkQueue_start newId s =
     (if int (length (runningQueue s)) \<ge> concurrentEncodeNum s \<or> length (waitQueue s) = 0
      then s
      else getExecution CREATE_ENCODING_PROCESS_PRIPORITY newId s)"

text \<open>\<^verbatim>\<open>emitNeedsCheckQueue()\<close>: the only listener of \<^verbatim>\<open>NEEDS_CHECK_QUEUE_EVENT\<close> is
  \<^verbatim>\<open>checkQueue\<close>, bound in the constructor, and \<^verbatim>\<open>emit\<close> runs it at once, up to its first
  \<^verbatim>\<open>await\<close>.\<close>

definition emitNeedsCheckQueue :: "string \<Rightarrow> EncodeManageModel \<Rightarrow> EncodeManageModel" where
  "emitNeedsCheckQueue newId s = checkQueue_start newId s"

text \<open>\<^verbatim>\<open>getDirPath(queueItem)\<close>\<close>

definition getDirPath ::
  "Collaborators \<Rightarrow> EncodeQueueItem \<Rightarrow> EncodeManageModel \<Rightarrow> (Error + string) \<times> EncodeManageModel" where
  "getDirPath c queueItem s =
     (case getParentDirPath c (parentDir queueItem) of
        None \<Rightarrow>
          (Inl parentDirIsNotFound,
           emit (Log Error (ParentDirConfigIsNotFound (parentDir queueItem))) s)
      | Some parentDir' \<Rightarrow>
          (Inr (case directory queueItem of
                  None \<Rightarrow> parentDir'
                | Some d \<Rightarrow> path_join c parentDir' d), s))"

text \<open>\<^verbatim>\<open>conflict.toString(10)\<close>\<close>

function toString10 :: "nat \<Rightarrow> string" where
  "toString10 n =
     (if n < 10 then [''0123456789'' ! n]
      else toString10 (n div 10) @ [''0123456789'' ! (n mod 10)])"
  by pat_completeness auto
termination
  by (relation "measure (\<lambda>n. n)") auto

text \<open>The \<^verbatim>\<open>while (1)\<close> of \<^verbatim>\<open>getFilePath\<close>: it ends at the first name for which \<^verbatim>\<open>stat\<close>
  rejects, and does not end when there is none.\<close>

partial_function (option) getFilePath_loop ::
  "Collaborators \<Rightarrow> string \<Rightarrow> string \<Rightarrow> string \<Rightarrow> nat \<Rightarrow> string option" where
  "getFilePath_loop c outputDirPath basefileName sfx conflict =
     (case fileUtil_stat c
             (path_join c outputDirPath
                (basefileName
                 @ (if conflict > 0 then ''('' @ toString10 conflict @ '')'' else [])
                 @ sfx)) of
        None \<Rightarrow> getFilePath_loop c outputDirPath basefileName sfx (conflict + 1)
      | Some e \<Rightarrow>
          Some (path_join c outputDirPath
                  (basefileName
                   @ (if conflict > 0 then ''('' @ toString10 conflict @ '')'' else [])
                   @ sfx)))"

declare getFilePath_loop.simps [code]

text \<open>\<^verbatim>\<open>getFilePath(outputDirPath, inputFilePath, suffix)\<close>. After the loop \<^verbatim>\<open>result\<close> is
  never null, so \<^verbatim>\<open>GetFilePathError\<close> is not thrown.\<close>

definition getFilePath :: "Collaborators \<Rightarrow> string \<Rightarrow> string \<Rightarrow> string \<Rightarrow> string option" where
  "getFilePath c outputDirPath inputFilePath sfx =
     getFilePath_loop c outputDirPath
       (path_basename_ext c inputFilePath (path_extname c inputFilePath)) sfx 0"

text \<open>The end of \<^verbatim>\<open>addQueue\<close>, once \<^verbatim>\<open>processManager.create\<close> has given the child process:
  the entry is pushed on \<^verbatim>\<open>runningQueue\<close> with its timer. The handler of the process's
  \<^verbatim>\<open>exit\<close> event is \<open>onExit\<close> below, with \<^verbatim>\<open>queueItem\<close> and \<^verbatim>\<open>outputFilePath\<close> as the values
  it closes over.\<close>

definition pushRunning ::
  "Collaborators \<Rightarrow> nat \<Rightarrow> EncodeQueueItem \<Rightarrow> Recorded \<Rightarrow> EncodeCmd \<Rightarrow> string option
    \<Rightarrow> EncodeManageModel \<Rightarrow> EncodeManageModel" where
  "pushRunning c childProcess queueItem recorded encodeCmd outputFilePath s =
     s\<lparr> runningQueue := runningQueue s @
          [\<lparr> process = childProcess,
             encodeProgram = queueItem,
             isCanceld = False,
             timerId =
               \<lparr> callback = EncodeTimeOut (encodeId queueItem) outputFilePath,
                 delay = number_times c (duration recorded)
                   (case rate encodeCmd of
                      None \<Rightarrow> DEFAULT_TIMEOUT_RATE
                    | Some r \<Rightarrow> r) \<rparr> \<rparr>] \<rparr>"

text \<open>The part of \<^verbatim>\<open>addQueue\<close> that finds the output directory and makes it when
  \<^verbatim>\<open>stat\<close> rejects.\<close>

definition outputDir ::
  "Collaborators \<Rightarrow> EncodeCmd \<Rightarrow> EncodeQueueItem \<Rightarrow> EncodeManageModel
    \<Rightarrow> (Error + string option) \<times> EncodeManageModel" where
  "outputDir c encodeCmd queueItem s =
     (case suffix encodeCmd of
        None \<Rightarrow> (Inr None, s)
      | Some sfx \<Rightarrow>
          (case getDirPath c queueItem s of
             (Inl err, s1) \<Rightarrow> (Inl err, s1)
           | (Inr outputDirPath, s1) \<Rightarrow>
               (case fileUtil_stat c outputDirPath of
                  None \<Rightarrow> (Inr (Some outputDirPath), s1)
                | Some e \<Rightarrow>
                    (case fileUtil_mkdir c outputDirPath of
                       Some err \<Rightarrow> (Inl err, emit (Log Info (Mkdirp outputDirPath)) s1)
                     | None \<Rightarrow>
                         (Inr (Some outputDirPath),
                          emit (Log Info (Mkdirp outputDirPath)) s1)))))"

text \<open>The part of \<^verbatim>\<open>addQueue\<close> from the output file's path on. \<open>None\<close> is the loop of
  \<^verbatim>\<open>getFilePath\<close> not ending.\<close>

definition spawnEncoder ::
  "Collaborators \<Rightarrow> EncodeQueueItem \<Rightarrow> Recorded \<Rightarrow> string \<Rightarrow> EncodeCmd \<Rightarrow> string option
    \<Rightarrow> EncodeManageModel \<Rightarrow> ((Error + unit) \<times> EncodeManageModel) option" where
  "spawnEncoder c queueItem recorded inputFilePath encodeCmd outputDirPath s =
     (case (case (outputDirPath, suffix encodeCmd) of
              (Some d, Some sfx) \<Rightarrow> map_option Some (getFilePath c d inputFilePath sfx)
            | _ \<Rightarrow> Some None) of
        None \<Rightarrow> None
      | Some outputFilePath \<Rightarrow>
          (let s1 = emit (Log Info (EncodeStart (mode queueItem) (name_r recorded)
                                      inputFilePath outputFilePath)) s
           in case processManager_create c
                     \<lparr> c_input = inputFilePath, c_output = outputFilePath,
                       c_cmd = cmd encodeCmd, c_priority = ENCODE_PRIPORITY \<rparr> of
                Inl err \<Rightarrow> Some (Inl err, s1)
              | Inr childProcess \<Rightarrow>
                  Some (Inr (),
                        pushRunning c childProcess queueItem recorded encodeCmd
                          outputFilePath s1)))"

text \<open>\<^verbatim>\<open>addQueue(queueItem)\<close>. \<open>Inl\<close> is the error it throws. Its \<^verbatim>\<open>await\<close>s are on the
  collaborators only, and it is run here without another segment in between.\<close>

definition addQueue ::
  "Collaborators \<Rightarrow> EncodeQueueItem \<Rightarrow> EncodeManageModel
    \<Rightarrow> ((Error + unit) \<times> EncodeManageModel) option" where
  "addQueue c queueItem s =
     (case videoFileDB_findId c (sourceVideoFileId queueItem) of
        None \<Rightarrow> Some (Inl VideoFileIdIsNotFound, s)
      | Some video \<Rightarrow>
     (case recordedDB_findId c (recordedId queueItem) of
        None \<Rightarrow> Some (Inl RecordedIsNotFound, s)
      | Some recorded \<Rightarrow>
     (case getFullFilePath c (sourceVideoFileId queueItem) of
        None \<Rightarrow> Some (Inl VideoPathIsNotFound, s)
      | Some inputFilePath \<Rightarrow>
     (case fileUtil_stat c inputFilePath of
        Some err \<Rightarrow> Some (Inl err, emit (Log Error (VideoFileIsNotFound inputFilePath)) s)
      | None \<Rightarrow>
     (case find (\<lambda>enc. name enc = mode queueItem) (config_encode c) of
        None \<Rightarrow> Some (Inl EncodeCommandIsNotFound, s)
      | Some encodeCmd \<Rightarrow>
     (case outputDir c encodeCmd queueItem s of
        (Inl err, s1) \<Rightarrow> Some (Inl err, s1)
      | (Inr outputDirPath, s1) \<Rightarrow>
          spawnEncoder c queueItem recorded inputFilePath encodeCmd outputDirPath s1))))))"

text \<open>\<^verbatim>\<open>checkQueue()\<close> after its \<^verbatim>\<open>await\<close> of the ticket. \<open>finalizeId\<close> is the identifier of
  the ticket \<^verbatim>\<open>finalize\<close> makes when it is called.\<close>

definition checkQueue_resume ::
  "Collaborators \<Rightarrow> GateResult \<Rightarrow> string \<Rightarrow> string \<Rightarrow> EncodeManageModel
    \<Rightarrow> (Error option \<times> EncodeManageModel) option" where
  "checkQueue_resume c g exeId finalizeId s =
     (case g of
        TimedOut \<Rightarrow>
          Some (Some GetExecutionTimeoutError,
                getExecutionTimeout CREATE_ENCODING_PROCESS_PRIPORITY exeId s)
      | Acquired \<Rightarrow>
          (case waitQueue s of
             [] \<Rightarrow> Some (None, unLockExecution exeId s)
           | encodeProgram' # rest \<Rightarrow>
               (case addQueue c encodeProgram' (s\<lparr> waitQueue := rest \<rparr>) of
                  None \<Rightarrow> None
                | Some (Inr u, s1) \<Rightarrow> Some (None, unLockExecution exeId s1)
                | Some (Inl err, s1) \<Rightarrow>
                    (let s2 = emit (Log Error (CreateEncodeProcessError (encodeId encodeProgram'))) s1;
                         s3 = emit (Log Error (ThrownError err)) s2;
                         s4 = emit EmitErrorEncode s3;
                         s5 = unLockExecution exeId s4
                     in Some (None, finalize_start finalizeId s5)))))"

section \<open>push\<close>

text \<open>\<^verbatim>\<open>push(addOption)\<close> up to its \<^verbatim>\<open>await\<close>. The first component is the error thrown, if
  any.\<close>

definition push_start :: "string \<Rightarrow> EncodeManageModel \<Rightarrow> Error option \<times> EncodeManageModel" where
  "push_start newId s =
     (if concurrentEncodeNum s \<le> 0 then (Some CncurrentEncodeNumIsZero, s)
      else (None, getExecution ADD_ENCODE_PRIPORITY newId s))"

text \<open>\<^verbatim>\<open>push(addOption)\<close> after its \<^verbatim>\<open>await\<close>; \<open>Inr\<close> is the identifier returned. \<open>checkId\<close>
  is the identifier of the ticket \<^verbatim>\<open>checkQueue\<close> makes if it asks for one.\<close>

definition push_resume ::
  "GateResult \<Rightarrow> string \<Rightarrow> AddEncodeProgramOption \<Rightarrow> string \<Rightarrow> EncodeManageModel
    \<Rightarrow> (Error + int) \<times> EncodeManageModel" where
  "push_resume g exeId addOption checkId s =
     (case g of
        TimedOut \<Rightarrow> (Inl GetExecutionTimeoutError, getExecutionTimeout ADD_ENCODE_PRIPORITY exeId s)
      | Acquired \<Rightarrow>
          (let encodeId' = idCnt s;
               queueItem = AddEncodeProgramOption.extend addOption
                             (EncodeQueueItem.fields encodeId');
               s1 = (if idCnt s = MAX_SAFE_INTEGER then s\<lparr> idCnt := 0 \<rparr> else s);
               s2 = s1\<lparr> idCnt := idCnt s1 + 1 \<rparr>;
               s3 = s2\<lparr> waitQueue := waitQueue s2 @ [queueItem] \<rparr>;
               s4 = emitNeedsCheckQueue checkId s3;
               s5 = emit (Log Info (AddNewEncode encodeId')) s4;
               s6 = unLockExecution exeId s5;
               s7 = emit (EmitAddEncode encodeId') s6
           in (Inr encodeId', s7)))"

section \<open>cancel\<close>

text \<open>\<^verbatim>\<open>runningQueueItem.isCanceld = true\<close> on the entry \<^verbatim>\<open>find\<close> gave: the first one with the
  identifier.\<close>

fun markCanceld :: "int \<Rightarrow> RunningQueueItem list \<Rightarrow> RunningQueueItem list" where
  "markCanceld i [] = []"
| "markCanceld i (q # qs) =
     (if encodeId (encodeProgram q) = i then q\<lparr> isCanceld := True \<rparr> # qs
      else q # markCanceld i qs)"

text \<open>\<^verbatim>\<open>cancel(encodeId)\<close> up to its first \<^verbatim>\<open>await\<close>.\<close>

definition cancel_start :: "string \<Rightarrow> EncodeManageModel \<Rightarrow> EncodeManageModel" where
  "cancel_start newId s = getExecution CANCEL_ENCODE_PRIPORITY newId s"

text \<open>\<^verbatim>\<open>cancel(encodeId)\<close> after the ticket is there. For a running job it waits for
  \<^verbatim>\<open>ProcessUtil.kill\<close> before it gives the ticket back; that wait is run here without
  another segment in between.\<close>

definition cancel_resume ::
  "Collaborators \<Rightarrow> GateResult \<Rightarrow> string \<Rightarrow> int \<Rightarrow> EncodeManageModel
    \<Rightarrow> Error option \<times> EncodeManageModel" where
  "cancel_resume c g exeId i s =
     (case g of
        TimedOut \<Rightarrow> (Some GetExecutionTimeoutError, getExecutionTimeout CANCEL_ENCODE_PRIPORITY exeId s)
      | Acquired \<Rightarrow>
          (let s1 = emit (Log Info (CancelEncode i)) s
           in case getRunnginQueueItem i s1 of
                Some runningQueueItem \<Rightarrow>
                  (let s2 = s1\<lparr> runningQueue := markCanceld i (runningQueue s1) \<rparr>;
                       s3 = emit (Kill (process runningQueueItem)) s2;
                       s4 = (case processUtil_kill c (process runningQueueItem) of
                               None \<Rightarrow> s3
                             | Some err \<Rightarrow>
                                 emit (Log Error (ThrownError err))
                                   (emit (Log Error (KillEncodeProcessFailed i)) s3))
                   in (None, unLockExecution exeId s4))
              | None \<Rightarrow>
                  (let s2 = s1\<lparr> waitQueue := filter (\<lambda>q. encodeId q \<noteq> i) (waitQueue s1) \<rparr>;
                       s3 = emit NextTickEmitNeedsCheckQueue s2
                   in (None, unLockExecution exeId s3))))"

text \<open>The callback of the timer of a running entry, when it runs: the log line, then
  \<^verbatim>\<open>cancel\<close> up to its \<^verbatim>\<open>await\<close>.\<close>

definition timerFire :: "Timer \<Rightarrow> string \<Rightarrow> EncodeManageModel \<Rightarrow> EncodeManageModel" where
  "timerFire t newId s =
     (case callback t of
        EncodeTimeOut i outputFilePath \<Rightarrow>
          cancel_start newId (emit (Log Error (EncodeProcessIsTimeOut i outputFilePath)) s))"

text \<open>The callback of the timer goes on when its \<^verbatim>\<open>await this.cancel(queueItem.encodeId)\<close>
  has the ticket: \<^verbatim>\<open>cancel\<close> after its \<^verbatim>\<open>await\<close>, for the identifier the callback closes
  over.\<close>

definition timerFire_resume ::
  "Collaborators \<Rightarrow> GateResult \<Rightarrow> string \<Rightarrow> Timer \<Rightarrow> EncodeManageModel
    \<Rightarrow> Error option \<times> EncodeManageModel" where
  "timerFire_resume c g exeId t s =
     (case callback t of
        EncodeTimeOut i outputFilePath \<Rightarrow> cancel_resume c g exeId i s)"

text \<open>The identifier and the output path the timer's callback closes over.\<close>

definition timerCancels :: "Timer \<Rightarrow> int" where
  "timerCancels t = (case callback t of EncodeTimeOut i outputFilePath \<Rightarrow> i)"

definition timerOutput :: "Timer \<Rightarrow> string option" where
  "timerOutput t = (case callback t of EncodeTimeOut i outputFilePath \<Rightarrow> outputFilePath)"

section \<open>The handler of the process's exit\<close>

text \<open>The branch of a successful encode: \<^verbatim>\<open>removeOriginal\<close> is set to false on the queue
  item when \<^verbatim>\<open>hasSamVideoFileIdItem\<close> holds, and the finish event is emitted. The queue
  item is the object the running entry holds, so the assignment shows there too.\<close>

definition exitSuccess ::
  "Collaborators \<Rightarrow> EncodeQueueItem \<Rightarrow> string option \<Rightarrow> EncodeManageModel \<Rightarrow> EncodeManageModel" where
  "exitSuccess c queueItem outputFilePath s =
     (let fileName = map_option (path_basename c) outputFilePath;
          queueItem' =
            (if removeOriginal queueItem = True
                \<and> hasSamVideoFileIdItem (sourceVideoFileId queueItem) s = True
             then queueItem\<lparr> removeOriginal := False \<rparr>
             else queueItem);
          s1 = s\<lparr> runningQueue :=
                    map (\<lambda>q. if encodeProgram q = queueItem
                              then q\<lparr> encodeProgram := queueItem' \<rparr> else q)
                        (runningQueue s) \<rparr>
      in emit (EmitFinishEncode
                 \<lparr> fin_recordedId = recordedId queueItem',
                   fin_videoFileId = sourceVideoFileId queueItem',
                   fin_parentDirName = parentDir queueItem',
                   fin_filePath =
                     (case fileName of
                        None \<Rightarrow> None
                      | Some f \<Rightarrow>
                          (case directory queueItem' of
                             None \<Rightarrow> Some f
                           | Some d \<Rightarrow> Some (path_join c d f))),
                   fin_fullOutputPath = outputFilePath,
                   fin_mode = mode queueItem',
                   fin_removeOriginal = removeOriginal queueItem' \<rparr>) s1)"

text \<open>The block under \<^verbatim>\<open>if (isError === true)\<close>.\<close>

definition exitError ::
  "Collaborators \<Rightarrow> string option \<Rightarrow> EncodeManageModel \<Rightarrow> EncodeManageModel" where
  "exitError c outputFilePath s =
     (let s1 = (case outputFilePath of
                  None \<Rightarrow> s
                | Some p \<Rightarrow>
                    (let s2 = emit (Log Info (DeleteEncodeOutputFile p)) s;
                         s3 = emit (Sleep 1000) s2;
                         s4 = emit (Unlink p) s3
                     in case fileUtil_unlink c p of
                          None \<Rightarrow> s4
                        | Some err \<Rightarrow>
                            emit (Log Error (ThrownError err))
                              (emit (Log Error (DeleteEncodeOutputFileFailed p)) s4)))
      in emit EmitErrorEncode s1)"

text \<open>The handler \<^verbatim>\<open>addQueue\<close> registers with \<^verbatim>\<open>childProcess.on('exit', ...)\<close>, for the
  \<^verbatim>\<open>queueItem\<close> and \<^verbatim>\<open>outputFilePath\<close> it closes over. \<open>code\<close> is null when a signal ended
  the process. The call of \<^verbatim>\<open>finalize\<close> at its end is not awaited: \<^verbatim>\<open>finalize\<close> runs up
  to its \<^verbatim>\<open>await\<close>. The handler's own \<^verbatim>\<open>await\<close>s (the sleep and the unlink) are run without
  another segment in between.\<close>

definition onExit ::
  "Collaborators \<Rightarrow> string \<Rightarrow> EncodeQueueItem \<Rightarrow> string option \<Rightarrow> int option \<Rightarrow> string option
    \<Rightarrow> EncodeManageModel \<Rightarrow> EncodeManageModel" where
  "onExit c finalizeId queueItem outputFilePath code signal s =
     (let s0 = emit (Log Info (ExitCode code signal)) s;
          (isError, s1) =
            (case getRunnginQueueItem (encodeId queueItem) s0 of
               None \<Rightarrow> (True, emit (Log Fatal (EncodeItemIsRemoved (recordedId queueItem))) s0)
             | Some encodingQueueItem \<Rightarrow>
                 if isCanceld encodingQueueItem = True
                 then (True, emit (Log Info (CanceldEncode (encodeId queueItem))) s0)
                 else if code \<noteq> Some 0
                 then (True, emit (Log Error (EncodeFailed (encodeId queueItem) outputFilePath)) s0)
                 else (False,
                       exitSuccess c queueItem outputFilePath
                         (emit (Log Info (SuccessfullyEncod (encodeId queueItem) outputFilePath)) s0)));
          s2 = (if isError = True then exitError c outputFilePath s1 else s1)
      in finalize_start finalizeId s2)"

section \<open>States the manager can be in\<close>

text \<open>The states that come from the initial one by running segments of the methods, in
  any order and with any arguments: more than the event loop can produce, so what holds
  of all of them holds of every state of a run. \<^verbatim>\<open>finalize\<close> starts only inside
  \<open>onExit\<close> and \<open>checkQueue_resume\<close>; the callback of \<^verbatim>\<open>process.nextTick\<close> is
  \<open>emitNeedsCheckQueue\<close>.\<close>

inductive reachable :: "Collaborators \<Rightarrow> EncodeManageModel \<Rightarrow> bool" for c :: Collaborators where
  r_initial: "reachable c (initialModel n)"
| r_push_start: "reachable c s \<Longrightarrow> reachable c (snd (push_start newId s))"
| r_push_resume:
    "reachable c s \<Longrightarrow> reachable c (snd (push_resume g exeId addOption checkId s))"
| r_emitNeedsCheckQueue: "reachable c s \<Longrightarrow> reachable c (emitNeedsCheckQueue newId s)"
| r_checkQueue_resume:
    "reachable c s \<Longrightarrow> checkQueue_resume c g exeId finalizeId s = Some (r, s')
      \<Longrightarrow> reachable c s'"
| r_finalize_resume: "reachable c s \<Longrightarrow> reachable c (snd (finalize_resume g exeId i s))"
| r_cancel_start: "reachable c s \<Longrightarrow> reachable c (cancel_start newId s)"
| r_cancel_resume: "reachable c s \<Longrightarrow> reachable c (snd (cancel_resume c g exeId i s))"
| r_timerFire: "reachable c s \<Longrightarrow> reachable c (timerFire t newId s)"
| r_timerFire_resume:
    "reachable c s \<Longrightarrow> reachable c (snd (timerFire_resume c g exeId t s))"
| r_onExit:
    "reachable c s \<Longrightarrow> reachable c (onExit c finalizeId queueItem outputFilePath code signal s)"

section \<open>A configuration and a request to run the model on\<close>

text \<open>Path functions for plain paths with \<open>/\<close>, in place of Node's \<^verbatim>\<open>path\<close> module.\<close>

definition exampleBasename :: "string \<Rightarrow> string" where
  "exampleBasename p = rev (takeWhile (\<lambda>ch. ch \<noteq> CHR ''/'') (rev p))"

definition exampleExtname :: "string \<Rightarrow> string" where
  "exampleExtname p =
     (if CHR ''.'' \<in> set (exampleBasename p)
      then CHR ''.'' # rev (takeWhile (\<lambda>ch. ch \<noteq> CHR ''.'') (rev (exampleBasename p)))
      else [])"

definition exampleBasenameExt :: "string \<Rightarrow> string \<Rightarrow> string" where
  "exampleBasenameExt p ext =
     (if ext \<noteq> [] \<and> length ext < length (exampleBasename p)
         \<and> drop (length (exampleBasename p) - length ext) (exampleBasename p) = ext
      then take (length (exampleBasename p) - length ext) (exampleBasename p)
      else exampleBasename p)"

definition exampleJoin :: "string \<Rightarrow> string \<Rightarrow> string" where
  "exampleJoin a b = a @ ''/'' @ b"

text \<open>One recording of 60 units of duration, one profile \<open>H264\<close> with suffix \<open>.mp4\<close> and
  rate 2; the source file and the output directory exist, nothing else does. The product
  is the exact one, as the product of the doubles 60 and 2 is.\<close>

definition exampleCollaborators :: Collaborators where
  "exampleCollaborators =
     \<lparr> videoFileDB_findId = (\<lambda>i. if i = 7 then Some () else None),
       recordedDB_findId =
         (\<lambda>i. if i = 5 then Some \<lparr> id_r = 5, name_r = ''news'', duration = 60 \<rparr> else None),
       getFullFilePath = (\<lambda>i. if i = 7 then Some ''/rec/news.ts'' else None),
       getParentDirPath = (\<lambda>n. if n = ''recorded'' then Some ''/rec'' else None),
       config_encode =
         [\<lparr> name = ''H264'', cmd = ''enc.sh'', suffix = Some ''.mp4'', rate = Some 2 \<rparr>],
       processManager_create = (\<lambda>opt. Inr 100),
       fileUtil_stat =
         (\<lambda>p. if p = ''/rec/news.ts'' \<or> p = ''/rec'' then None
               else Some (ExternalError ''ENOENT'')),
       fileUtil_mkdir = (\<lambda>p. None),
       fileUtil_unlink = (\<lambda>p. None),
       processUtil_kill = (\<lambda>p. None),
       path_basename = exampleBasename,
       path_basename_ext = exampleBasenameExt,
       path_extname = exampleExtname,
       path_join = exampleJoin,
       number_times = (\<lambda>a b. a * b) \<rparr>"

definition exampleRequest :: AddEncodeProgramOption where
  "exampleRequest =
     \<lparr> recordedId = 5, sourceVideoFileId = 7, mode = ''H264'', parentDir = ''recorded'',
       directory = None, removeOriginal = True \<rparr>"

text \<open>The queue item \<^verbatim>\<open>push\<close> makes of the request when the counter is at 1.\<close>

definition exampleItem :: EncodeQueueItem where
  "exampleItem =
     \<lparr> recordedId = 5, sourceVideoFileId = 7, mode = ''H264'', parentDir = ''recorded'',
       directory = None, removeOriginal = True, encodeId = 1 \<rparr>"

text \<open>One job pushed on a fresh manager with \<^verbatim>\<open>concurrentEncodeNum = 1\<close>: \<^verbatim>\<open>push\<close> gets the
  ticket \<open>t1\<close>, and the \<^verbatim>\<open>checkQueue\<close> it starts asks for the ticket \<open>t2\<close>.\<close>

definition examplePushed :: EncodeManageModel where
  "examplePushed =
     snd (push_resume Acquired ''t1'' exampleRequest ''t2''
            (snd (push_start ''t1'' (initialModel 1))))"

text \<open>Then \<^verbatim>\<open>checkQueue\<close> goes on with its ticket \<open>t2\<close> and starts the encoder.\<close>

definition exampleRunning :: EncodeManageModel where
  "exampleRunning =
     snd (the (checkQueue_resume exampleCollaborators Acquired ''t2'' ''t0'' examplePushed))"

text \<open>Then \<^verbatim>\<open>cancel(1)\<close> runs with the ticket \<open>t3\<close>.\<close>

definition exampleCanceld :: EncodeManageModel where
  "exampleCanceld =
     snd (cancel_resume exampleCollaborators Acquired ''t3'' 1
            (cancel_start ''t3'' exampleRunning))"

text \<open>Or the running job ends and \<^verbatim>\<open>finalize(1)\<close> runs with the ticket \<open>t5\<close>: the entry
  leaves \<^verbatim>\<open>runningQueue\<close>.\<close>

definition exampleRemoved :: EncodeManageModel where
  "exampleRemoved =
     snd (finalize_resume Acquired ''t5'' 1 (finalize_start ''t5'' exampleRunning))"

text \<open>The manager with one job running and the counter of identifiers at its bound.\<close>

definition exampleSeeded :: EncodeManageModel where
  "exampleSeeded = exampleRunning\<lparr> idCnt := MAX_SAFE_INTEGER \<rparr>"

text \<open>Two calls of \<^verbatim>\<open>push\<close> on it, with the tickets \<open>t6\<close> and \<open>t8\<close>.\<close>

definition exampleFirstPush :: "(Error + int) \<times> EncodeManageModel" where
  "exampleFirstPush =
     push_resume Acquired ''t6'' exampleRequest ''t7'' (snd (push_start ''t6'' exampleSeeded))"

definition exampleSecondPush :: "(Error + int) \<times> EncodeManageModel" where
  "exampleSecondPush =
     push_resume Acquired ''t8'' exampleRequest ''t9''
       (snd (push_start ''t8'' (snd exampleFirstPush)))"

text \<open>A fresh manager on which \<open>a\<close> has the ticket of a \<^verbatim>\<open>push\<close>, and a second \<^verbatim>\<open>push\<close> and a
  \<^verbatim>\<open>cancel\<close> wait with the tickets \<open>b\<close> and \<open>c\<close>.\<close>

definition exampleHeld :: EncodeManageModel where
  "exampleHeld =
     cancel_start ''c'' (snd (push_start ''b'' (snd (push_start ''a'' (initialModel 1)))))"

text \<open>A request for a profile the configuration does not have, pushed on a fresh
  manager.\<close>

definition exampleBadItem :: EncodeQueueItem where
  "exampleBadItem =
     \<lparr> recordedId = 5, sourceVideoFileId = 7, mode = ''VP9'', parentDir = ''recorded'',
       directory = None, removeOriginal = False, encodeId = 1 \<rparr>"

definition exampleBadPushed :: EncodeManageModel where
  "exampleBadPushed =
     snd (push_resume Acquired ''t1''
            \<lparr> recordedId = 5, sourceVideoFileId = 7, mode = ''VP9'', parentDir = ''recorded'',
              directory = None, removeOriginal = False \<rparr> ''t2''
            (snd (push_start ''t1'' (initialModel 1))))"

text \<open>Then \<^verbatim>\<open>checkQueue\<close> goes on with its ticket \<open>t2\<close>; \<^verbatim>\<open>addQueue\<close> throws, and \<^verbatim>\<open>finalize(1)\<close>
  is called and asks for the ticket \<open>t0\<close>.\<close>

definition exampleBadFailed :: EncodeManageModel where
  "exampleBadFailed =
     snd (the (checkQueue_resume exampleCollaborators Acquired ''t2'' ''t0'' exampleBadPushed))"

section \<open>Reading the effects\<close>

text \<open>What was sent out on the way from the state \<open>s\<close> to the later state \<open>s'\<close>.\<close>

definition effectsSince :: "EncodeManageModel \<Rightarrow> EncodeManageModel \<Rightarrow> Effect list" where
  "effectsSince s s' = drop (length (effects s)) (effects s')"

section \<open>The ticket queue stays sorted\<close>

lemma insertPosition_takeWhile:
  "n \<le> length q \<Longrightarrow>
   insertPosition q p n = n + length (takeWhile (\<lambda>x. \<not> priority x < p) (drop n q))"
proof (induction q p n rule: insertPosition.induct)
  case (1 q p position)
  show ?case
  proof (cases "position < length q")
    case True
    then have d: "drop position q = q ! position # drop (Suc position) q"
      by (simp add: Cons_nth_drop_Suc)
    show ?thesis
    proof (cases "priority (q ! position) < p")
      case True
      with \<open>position < length q\<close> d show ?thesis
        by (subst insertPosition.simps) simp
    next
      case False
      with \<open>position < length q\<close> have "insertPosition q p (Suc position)
          = Suc position + length (takeWhile (\<lambda>x. \<not> priority x < p) (drop (Suc position) q))"
        using "1.IH" by simp
      with False \<open>position < length q\<close> d show ?thesis
        by (subst insertPosition.simps) simp
    qed
  next
    case False
    with "1.prems" show ?thesis
      by (subst insertPosition.simps) simp
  qed
qed

lemma insertTicket_takeWhile:
  "insertTicket d q =
     takeWhile (\<lambda>x. \<not> priority x < priority d) q @ [d]
     @ dropWhile (\<lambda>x. \<not> priority x < priority d) q"
proof -
  have "insertPosition q (priority d) 0 = length (takeWhile (\<lambda>x. \<not> priority x < priority d) q)"
    using insertPosition_takeWhile[of 0 q "priority d"] by simp
  then show ?thesis
    unfolding insertTicket_def Let_def
    by (simp only: takeWhile_eq_take[symmetric] dropWhile_eq_drop[symmetric])
qed


lemma sorted_takeWhile_filter:
  "sorted_wrt (\<lambda>a b. priority b \<le> priority a) q \<Longrightarrow>
   takeWhile (\<lambda>x. \<not> priority x < p) q = filter (\<lambda>x. p \<le> priority x) q
   \<and> dropWhile (\<lambda>x. \<not> priority x < p) q = filter (\<lambda>x. priority x < p) q"
proof (induction q)
  case Nil
  then show ?case by simp
next
  case (Cons a q)
  show ?case
  proof (cases "priority a < p")
    case True
    with Cons.prems have "\<forall>x\<in>set q. priority x < p" by auto
    then have "filter (\<lambda>x. p \<le> priority x) q = []" "filter (\<lambda>x. priority x < p) q = q"
      by (auto simp: filter_empty_conv filter_id_conv)
    with True show ?thesis by simp
  next
    case False
    with Cons show ?thesis by simp
  qed
qed

lemma sorted_insertTicket:
  assumes "sorted_wrt (\<lambda>a b. priority b \<le> priority a) q"
  shows "sorted_wrt (\<lambda>a b. priority b \<le> priority a) (insertTicket d q)"
proof -
  have "insertTicket d q = filter (\<lambda>x. priority d \<le> priority x) q @ [d] @ filter (\<lambda>x. priority x < priority d) q"
    using sorted_takeWhile_filter[OF assms] by (simp add: insertTicket_takeWhile)
  moreover have "sorted_wrt (\<lambda>a b. priority b \<le> priority a) (filter P q)" for P
    using assms by (simp add: sorted_wrt_filter)
  ultimately show ?thesis
    by (auto simp: sorted_wrt_append)
qed


lemma exeQueue_emit [simp]: "exeQueue (emit e s) = exeQueue s"
  by (simp add: emit_def)

lemma exeQueue_unLockExecution:
  "exeQueue (unLockExecution i s) = exeQueue s \<or> exeQueue (unLockExecution i s) = tl (exeQueue s)"
  by (auto simp: unLockExecution_def Let_def split: list.splits)

lemma sorted_tl: "sorted_wrt R q \<Longrightarrow> sorted_wrt R (tl q)"
  by (cases q) auto

lemma sorted_unLockExecution:
  "sorted_wrt (\<lambda>a b. priority b \<le> priority a) (exeQueue s) \<Longrightarrow>
   sorted_wrt (\<lambda>a b. priority b \<le> priority a) (exeQueue (unLockExecution i s))"
  using exeQueue_unLockExecution[of i s] by (auto intro: sorted_tl)

lemma sorted_getExecution:
  "sorted_wrt (\<lambda>a b. priority b \<le> priority a) (exeQueue s) \<Longrightarrow>
   sorted_wrt (\<lambda>a b. priority b \<le> priority a) (exeQueue (getExecution p i s))"
  unfolding getExecution_def Let_def
  by (rule sorted_unLockExecution) (simp add: sorted_insertTicket)

lemma sorted_getExecutionTimeout:
  "exeQueue (getExecutionTimeout p i s) = exeQueue s"
  by (simp add: getExecutionTimeout_def)

lemma sorted_checkQueue_start:
  "sorted_wrt (\<lambda>a b. priority b \<le> priority a) (exeQueue s) \<Longrightarrow>
   sorted_wrt (\<lambda>a b. priority b \<le> priority a) (exeQueue (checkQueue_start i s))"
  by (simp add: checkQueue_start_def sorted_getExecution)

lemma sorted_push_resume:
  assumes "sorted_wrt (\<lambda>a b. priority b \<le> priority a) (exeQueue s)"
  shows "sorted_wrt (\<lambda>a b. priority b \<le> priority a)
           (exeQueue (snd (push_resume g exeId addOption checkId s)))"
proof (cases g)
  case Acquired
  show ?thesis
    unfolding push_resume_def Let_def Acquired emitNeedsCheckQueue_def
    using assms
    by (auto intro!: sorted_unLockExecution sorted_checkQueue_start)
next
  case TimedOut
  with assms show ?thesis
    by (simp add: push_resume_def sorted_getExecutionTimeout)
qed

lemma exeQueue_outputDir:
  "outputDir c encodeCmd queueItem s = (r, s') \<Longrightarrow> exeQueue s' = exeQueue s"
  by (auto simp: outputDir_def getDirPath_def split: option.splits sum.splits prod.splits)

lemma exeQueue_spawnEncoder:
  "spawnEncoder c queueItem recorded inputFilePath encodeCmd outputDirPath s = Some (r, s')
    \<Longrightarrow> exeQueue s' = exeQueue s"
  by (auto simp: spawnEncoder_def pushRunning_def Let_def split: option.splits sum.splits)

lemma exeQueue_addQueue:
  "addQueue c queueItem s = Some (r, s') \<Longrightarrow> exeQueue s' = exeQueue s"
  unfolding addQueue_def
  by (auto split: option.splits sum.splits prod.splits
           dest!: exeQueue_outputDir exeQueue_spawnEncoder)

lemma sorted_checkQueue_resume:
  assumes "sorted_wrt (\<lambda>a b. priority b \<le> priority a) (exeQueue s)"
    and "checkQueue_resume c g exeId finalizeId s = Some (r, s')"
  shows "sorted_wrt (\<lambda>a b. priority b \<le> priority a) (exeQueue s')"
proof (cases g)
  case TimedOut
  with assms show ?thesis
    by (auto simp: checkQueue_resume_def sorted_getExecutionTimeout)
next
  case Acquired
  show ?thesis
  proof (cases "waitQueue s")
    case Nil
    with assms Acquired show ?thesis
      by (auto simp: checkQueue_resume_def intro: sorted_unLockExecution)
  next
    case (Cons a rest)
    from assms(2) Acquired Cons obtain x s1 where
      aq: "addQueue c a (s\<lparr>waitQueue := rest\<rparr>) = Some (x, s1)"
      by (auto simp: checkQueue_resume_def split: option.splits)
    then have q1: "exeQueue s1 = exeQueue s"
      using exeQueue_addQueue by fastforce
    show ?thesis
    proof (cases x)
      case (Inr u)
      with assms aq Acquired Cons q1 show ?thesis
        by (auto simp: checkQueue_resume_def intro!: sorted_unLockExecution)
    next
      case (Inl err)
      with assms aq Acquired Cons q1 show ?thesis
        by (auto simp: checkQueue_resume_def finalize_start_def Let_def
                 intro!: sorted_unLockExecution sorted_getExecution)
    qed
  qed
qed

lemma sorted_finalize_resume:
  assumes "sorted_wrt (\<lambda>a b. priority b \<le> priority a) (exeQueue s)"
  shows "sorted_wrt (\<lambda>a b. priority b \<le> priority a)
           (exeQueue (snd (finalize_resume g exeId i s)))"
  using assms
  by (cases g)
     (auto simp: finalize_resume_def Let_def sorted_getExecutionTimeout
           intro!: sorted_unLockExecution split: option.splits)

lemma sorted_cancel_resume:
  assumes "sorted_wrt (\<lambda>a b. priority b \<le> priority a) (exeQueue s)"
  shows "sorted_wrt (\<lambda>a b. priority b \<le> priority a)
           (exeQueue (snd (cancel_resume c g exeId i s)))"
  using assms
  by (cases g)
     (auto simp: cancel_resume_def Let_def sorted_getExecutionTimeout
           intro!: sorted_unLockExecution split: option.splits)

lemma exeQueue_exitSuccess [simp]:
  "exeQueue (exitSuccess c queueItem outputFilePath s) = exeQueue s"
  by (simp add: exitSuccess_def Let_def)

lemma exeQueue_exitError [simp]:
  "exeQueue (exitError c outputFilePath s) = exeQueue s"
  by (simp add: exitError_def Let_def split: option.splits)

lemma sorted_onExit:
  assumes "sorted_wrt (\<lambda>a b. priority b \<le> priority a) (exeQueue s)"
  shows "sorted_wrt (\<lambda>a b. priority b \<le> priority a)
           (exeQueue (onExit c finalizeId queueItem outputFilePath code signal s))"
  using assms
  by (auto simp: onExit_def Let_def finalize_start_def
           intro!: sorted_getExecution split: option.splits)

lemma reachable_sorted:
  "reachable c s \<Longrightarrow> sorted_wrt (\<lambda>a b. priority b \<le> priority a) (exeQueue s)"
proof (induction rule: reachable.induct)
  case (r_initial n)
  show ?case by (simp add: initialModel_def)
next
  case (r_push_start s newId)
  then show ?case by (simp add: push_start_def sorted_getExecution)
next
  case (r_push_resume s g exeId addOption checkId)
  then show ?case by (simp add: sorted_push_resume)
next
  case (r_emitNeedsCheckQueue s newId)
  then show ?case by (simp add: emitNeedsCheckQueue_def sorted_checkQueue_start)
next
  case (r_checkQueue_resume s g exeId finalizeId r s')
  then show ?case by (auto intro: sorted_checkQueue_resume)
next
  case (r_finalize_resume s g exeId i)
  then show ?case by (simp add: sorted_finalize_resume)
next
  case (r_cancel_start s newId)
  then show ?case by (simp add: cancel_start_def sorted_getExecution)
next
  case (r_cancel_resume s g exeId i)
  then show ?case by (simp add: sorted_cancel_resume)
next
  case (r_timerFire s t newId)
  then show ?case
    by (auto simp: timerFire_def cancel_start_def intro!: sorted_getExecution
             split: TimerCallback.splits)
next
  case (r_timerFire_resume s g exeId t)
  then show ?case
    by (auto simp: timerFire_resume_def sorted_cancel_resume split: TimerCallback.splits)
next
  case (r_onExit s finalizeId queueItem outputFilePath code signal)
  then show ?case by (simp add: sorted_onExit)
qed

section \<open>Evaluation of the example runs\<close>

lemmas run_defs =
  push_start_def push_resume_def getExecution_def unLockExecution_def insertTicket_def
  emitNeedsCheckQueue_def checkQueue_start_def checkQueue_resume_def addQueue_def
  outputDir_def spawnEncoder_def getDirPath_def getFilePath_def pushRunning_def emit_def
  finalize_start_def finalize_resume_def cancel_start_def cancel_resume_def onExit_def
  exitSuccess_def exitError_def getRunnginQueueItem_def hasSamVideoFileIdItem_def
  initialModel_def getExecutionTimeout_def
  CANCEL_ENCODE_PRIPORITY_def ADD_ENCODE_PRIPORITY_def CREATE_ENCODING_PROCESS_PRIPORITY_def
  CLEAR_QUEUE_PRIPORITY_def ENCODE_PRIPORITY_def DEFAULT_TIMEOUT_RATE_def
  AddEncodeProgramOption.defs EncodeQueueItem.defs Let_def

lemmas example_defs =
  exampleCollaborators_def exampleRequest_def exampleItem_def exampleBasename_def
  exampleExtname_def exampleBasenameExt_def exampleJoin_def

lemma getFilePath_loop_free:
  "fileUtil_stat c (path_join c d (b @ sfx)) = Some e \<Longrightarrow>
   getFilePath_loop c d b sfx 0 = Some (path_join c d (b @ sfx))"
  by (subst getFilePath_loop.simps) simp

lemma examplePushed_eq:
  "examplePushed =
     \<lparr> lockId = Some ''t2'', exeQueue = [], listeners = [], concurrentEncodeNum = 1,
       waitQueue = [exampleItem], runningQueue = [], idCnt = 2,
       effects = [EmitUnlock ''t1'', Log Info (AddNewEncode 1), EmitUnlock ''t2'',
                  EmitAddEncode 1] \<rparr>"
  by (simp add: examplePushed_def run_defs exampleRequest_def exampleItem_def MAX_SAFE_INTEGER_def)

lemma example_getFilePath:
  "getFilePath exampleCollaborators ''/rec'' ''/rec/news.ts'' ''.mp4'' = Some ''/rec/news.mp4''"
proof -
  have b: "path_basename_ext exampleCollaborators ''/rec/news.ts''
             (path_extname exampleCollaborators ''/rec/news.ts'') = ''news''"
    by (simp add: example_defs)
  have "getFilePath_loop exampleCollaborators ''/rec'' ''news'' ''.mp4'' 0
          = Some (path_join exampleCollaborators ''/rec'' (''news'' @ ''.mp4''))"
    by (rule getFilePath_loop_free[where e = "ExternalError ''ENOENT''"])
       (simp add: example_defs)
  then show ?thesis
    unfolding getFilePath_def b by (simp add: example_defs)
qed

lemma example_addQueue:
  "addQueue exampleCollaborators exampleItem s =
     Some (Inr (),
           pushRunning exampleCollaborators 100 exampleItem \<lparr> id_r = 5, name_r = ''news'', duration = 60 \<rparr>
             \<lparr> name = ''H264'', cmd = ''enc.sh'', suffix = Some ''.mp4'', rate = Some 2 \<rparr>
             (Some ''/rec/news.mp4'')
             (emit (Log Info (EncodeStart ''H264'' ''news'' ''/rec/news.ts''
                                (Some ''/rec/news.mp4''))) s))"
proof -
  have od: "outputDir exampleCollaborators
              \<lparr> name = ''H264'', cmd = ''enc.sh'', suffix = Some ''.mp4'', rate = Some 2 \<rparr>
              exampleItem s = (Inr (Some ''/rec''), s)"
    by (simp add: outputDir_def getDirPath_def exampleCollaborators_def exampleItem_def)
  have sp: "spawnEncoder exampleCollaborators exampleItem
              \<lparr> id_r = 5, name_r = ''news'', duration = 60 \<rparr> ''/rec/news.ts''
              \<lparr> name = ''H264'', cmd = ''enc.sh'', suffix = Some ''.mp4'', rate = Some 2 \<rparr>
              (Some ''/rec'') s
            = Some (Inr (),
               pushRunning exampleCollaborators 100 exampleItem \<lparr> id_r = 5, name_r = ''news'', duration = 60 \<rparr>
                 \<lparr> name = ''H264'', cmd = ''enc.sh'', suffix = Some ''.mp4'', rate = Some 2 \<rparr>
                 (Some ''/rec/news.mp4'')
                 (emit (Log Info (EncodeStart ''H264'' ''news'' ''/rec/news.ts''
                                    (Some ''/rec/news.mp4''))) s))"
    by (simp add: spawnEncoder_def example_getFilePath)
       (simp add: exampleCollaborators_def exampleItem_def)
  have pre: "videoFileDB_findId exampleCollaborators (sourceVideoFileId exampleItem) = Some ()"
    "recordedDB_findId exampleCollaborators (recordedId exampleItem)
       = Some \<lparr> id_r = 5, name_r = ''news'', duration = 60 \<rparr>"
    "getFullFilePath exampleCollaborators (sourceVideoFileId exampleItem) = Some ''/rec/news.ts''"
    "fileUtil_stat exampleCollaborators ''/rec/news.ts'' = None"
    "find (\<lambda>enc. name enc = mode exampleItem) (config_encode exampleCollaborators)
       = Some \<lparr> name = ''H264'', cmd = ''enc.sh'', suffix = Some ''.mp4'', rate = Some 2 \<rparr>"
    by (simp_all add: exampleCollaborators_def exampleItem_def)
  show ?thesis
    unfolding addQueue_def by (simp only: pre od sp option.case prod.case sum.case)
qed

lemma exampleRunning_eq:
  "exampleRunning =
     \<lparr> lockId = None, exeQueue = [], listeners = [], concurrentEncodeNum = 1,
       waitQueue = [],
       runningQueue =
         [\<lparr> process = 100, encodeProgram = exampleItem, isCanceld = False,
            timerId = \<lparr> callback = EncodeTimeOut 1 (Some ''/rec/news.mp4''), delay = 120 \<rparr> \<rparr>],
       idCnt = 2,
       effects = [EmitUnlock ''t1'', Log Info (AddNewEncode 1), EmitUnlock ''t2'',
                  EmitAddEncode 1,
                  Log Info (EncodeStart ''H264'' ''news'' ''/rec/news.ts''
                              (Some ''/rec/news.mp4''))] \<rparr>"
  unfolding exampleRunning_def checkQueue_resume_def
  by (simp add: examplePushed_eq example_addQueue)
     (simp add: pushRunning_def emit_def unLockExecution_def exampleItem_def
                exampleCollaborators_def)

lemma exampleCanceld_eq:
  "exampleCanceld =
     \<lparr> lockId = None, exeQueue = [], listeners = [], concurrentEncodeNum = 1,
       waitQueue = [],
       runningQueue =
         [\<lparr> process = 100, encodeProgram = exampleItem, isCanceld = True,
            timerId = \<lparr> callback = EncodeTimeOut 1 (Some ''/rec/news.mp4''), delay = 120 \<rparr> \<rparr>],
       idCnt = 2,
       effects = [EmitUnlock ''t1'', Log Info (AddNewEncode 1), EmitUnlock ''t2'',
                  EmitAddEncode 1,
                  Log Info (EncodeStart ''H264'' ''news'' ''/rec/news.ts''
                              (Some ''/rec/news.mp4'')),
                  EmitUnlock ''t3'', Log Info (CancelEncode 1), Kill 100] \<rparr>"
  unfolding exampleCanceld_def
  by (simp add: exampleRunning_eq)
     (simp add: run_defs exampleItem_def exampleCollaborators_def)

lemma exampleHeld_eq:
  "exampleHeld =
     \<lparr> lockId = Some ''a'',
       exeQueue = [\<lparr> qid = ''b'', priority = 2 \<rparr>, \<lparr> qid = ''c'', priority = 1 \<rparr>],
       listeners = [''b'', ''c''], concurrentEncodeNum = 1,
       waitQueue = [], runningQueue = [], idCnt = 1,
       effects = [EmitUnlock ''a''] \<rparr>"
  by (simp add: exampleHeld_def run_defs)

lemma exampleHeld_reachable: "reachable c exampleHeld"
  unfolding exampleHeld_def
  by (rule reachable.r_cancel_start, rule reachable.r_push_start,
      rule reachable.r_push_start, rule reachable.r_initial)

section \<open>What the segments leave unchanged\<close>

lemma runningQueue_unLockExecution [simp]:
  "runningQueue (unLockExecution i s) = runningQueue s"
  by (simp add: unLockExecution_def Let_def split: list.splits)

lemma runningQueue_getExecution [simp]:
  "runningQueue (getExecution p i s) = runningQueue s"
  by (simp add: getExecution_def Let_def)

lemma idCnt_unLockExecution [simp]: "idCnt (unLockExecution i s) = idCnt s"
  by (simp add: unLockExecution_def Let_def split: list.splits)

lemma idCnt_getExecution [simp]: "idCnt (getExecution p i s) = idCnt s"
  by (simp add: getExecution_def Let_def)

lemma idCnt_checkQueue_start [simp]: "idCnt (checkQueue_start i s) = idCnt s"
  by (simp add: checkQueue_start_def)

lemma runningQueue_emit [simp]: "runningQueue (emit e s) = runningQueue s"
  by (simp add: emit_def)

lemma idCnt_emit [simp]: "idCnt (emit e s) = idCnt s"
  by (simp add: emit_def)

lemma effects_emit [simp]: "effects (emit e s) = effects s @ [e]"
  by (simp add: emit_def)

text \<open>A handoff sends out the unlock event and nothing else.\<close>

lemma effects_unLockExecution:
  "effects (unLockExecution i s) =
     effects s @ (if lockId (unLockExecution i s) \<noteq> None \<and> exeQueue (unLockExecution i s) \<noteq> exeQueue s
                  then [EmitUnlock (the (lockId (unLockExecution i s)))] else [])"
  by (auto simp: unLockExecution_def Let_def split: list.splits)

lemma effects_getExecution:
  "\<exists>es. effects (getExecution p i s) = effects s @ es
        \<and> (es = [] \<or> es = [EmitUnlock (the (lockId (getExecution p i s)))])"
  unfolding getExecution_def Let_def
  by (subst effects_unLockExecution) auto

lemma find_None_filter:
  "find P xs = None \<Longrightarrow> filter (\<lambda>x. \<not> P x) xs = xs"
  by (induction xs) (auto split: if_splits)

lemma runningQueue_outputDir:
  "outputDir c encodeCmd queueItem s = (r, s') \<Longrightarrow> runningQueue s' = runningQueue s"
  by (auto simp: outputDir_def getDirPath_def split: option.splits sum.splits prod.splits)

lemma runningQueue_spawnEncoder_fail:
  "spawnEncoder c queueItem recorded inputFilePath encodeCmd outputDirPath s = Some (Inl err, s')
    \<Longrightarrow> runningQueue s' = runningQueue s"
  by (auto simp: spawnEncoder_def Let_def split: option.splits sum.splits)

lemma runningQueue_addQueue_fail:
  "addQueue c queueItem s = Some (Inl err, s') \<Longrightarrow> runningQueue s' = runningQueue s"
  unfolding addQueue_def
  by (auto split: option.splits sum.splits prod.splits
           dest!: runningQueue_outputDir runningQueue_spawnEncoder_fail)

lemma exampleBad_addQueue:
  "addQueue exampleCollaborators exampleBadItem s = Some (Inl EncodeCommandIsNotFound, s)"
  by (simp add: addQueue_def exampleCollaborators_def exampleBadItem_def)

lemma exampleBadPushed_eq:
  "exampleBadPushed =
     \<lparr> lockId = Some ''t2'', exeQueue = [], listeners = [], concurrentEncodeNum = 1,
       waitQueue = [exampleBadItem], runningQueue = [], idCnt = 2,
       effects = [EmitUnlock ''t1'', Log Info (AddNewEncode 1), EmitUnlock ''t2'',
                  EmitAddEncode 1] \<rparr>"
  by (simp add: exampleBadPushed_def run_defs exampleBadItem_def MAX_SAFE_INTEGER_def)

lemma exampleBadFailed_eq:
  "exampleBadFailed =
     \<lparr> lockId = Some ''t0'', exeQueue = [], listeners = [], concurrentEncodeNum = 1,
       waitQueue = [], runningQueue = [], idCnt = 2,
       effects = [EmitUnlock ''t1'', Log Info (AddNewEncode 1), EmitUnlock ''t2'',
                  EmitAddEncode 1, Log Error (CreateEncodeProcessError 1),
                  Log Error (ThrownError EncodeCommandIsNotFound), EmitErrorEncode,
                  EmitUnlock ''t0''] \<rparr>"
  unfolding exampleBadFailed_def checkQueue_resume_def
  by (simp add: exampleBadPushed_eq exampleBad_addQueue)
     (simp add: run_defs exampleBadItem_def)

section \<open>The counter of identifiers and the entry addQueue makes\<close>

lemma MAX_SAFE_INTEGER_value: "MAX_SAFE_INTEGER = 9007199254740991"
  by (simp add: MAX_SAFE_INTEGER_def)

lemma push_resume_result:
  "fst (push_resume Acquired exeId addOption checkId s) = Inr (idCnt s)"
  by (simp add: push_resume_def Let_def)

lemma push_resume_idCnt:
  "idCnt (snd (push_resume Acquired exeId addOption checkId s))
     = (if idCnt s = MAX_SAFE_INTEGER then 0 else idCnt s) + 1"
  by (simp add: push_resume_def Let_def emitNeedsCheckQueue_def)

lemma push_start_idCnt: "idCnt (snd (push_start newId s)) = idCnt s"
  by (simp add: push_start_def)

lemma exampleSeeded_started:
  "snd (push_start ''t6'' exampleSeeded)
     = exampleRunning\<lparr> idCnt := MAX_SAFE_INTEGER, lockId := Some ''t6'',
         effects := effects exampleRunning @ [EmitUnlock ''t6''] \<rparr>"
  by (simp add: exampleSeeded_def exampleRunning_eq)
     (simp add: push_start_def getExecution_def insertTicket_def unLockExecution_def
                ADD_ENCODE_PRIPORITY_def)

lemma spawnEncoder_ok:
  "spawnEncoder c queueItem recorded inputFilePath encodeCmd outputDirPath s = Some (Inr u, s')
    \<Longrightarrow> \<exists>childProcess outputFilePath e.
          s' = pushRunning c childProcess queueItem recorded encodeCmd outputFilePath (emit e s)"
  by (auto simp: spawnEncoder_def Let_def split: option.splits sum.splits)

lemma addQueue_ok:
  assumes "addQueue c queueItem s = Some (Inr u, s')"
    and "recordedDB_findId c (recordedId queueItem) = Some recorded"
    and "find (\<lambda>enc. name enc = mode queueItem) (config_encode c) = Some encodeCmd"
  shows "\<exists>childProcess outputFilePath s1. runningQueue s1 = runningQueue s
          \<and> s' = pushRunning c childProcess queueItem recorded encodeCmd outputFilePath s1"
proof -
  from assms obtain inputFilePath outputDirPath s0 where
    od: "outputDir c encodeCmd queueItem s = (Inr outputDirPath, s0)" and
    sp: "spawnEncoder c queueItem recorded inputFilePath encodeCmd outputDirPath s0
           = Some (Inr u, s')"
    unfolding addQueue_def
    by (auto split: option.splits sum.splits prod.splits)
  from spawnEncoder_ok[OF sp] obtain childProcess outputFilePath e where
    "s' = pushRunning c childProcess queueItem recorded encodeCmd outputFilePath (emit e s0)"
    by blast
  moreover have "runningQueue (emit e s0) = runningQueue s"
    using runningQueue_outputDir[OF od] by simp
  ultimately show ?thesis by blast
qed

section \<open>The counter of identifiers stays between 1 and the bound\<close>

lemma idCnt_getExecutionTimeout [simp]: "idCnt (getExecutionTimeout p i s) = idCnt s"
  by (simp add: getExecutionTimeout_def)

lemma idCnt_outputDir:
  "outputDir c encodeCmd queueItem s = (r, s') \<Longrightarrow> idCnt s' = idCnt s"
  by (auto simp: outputDir_def getDirPath_def split: option.splits sum.splits prod.splits)

lemma idCnt_spawnEncoder:
  "spawnEncoder c queueItem recorded inputFilePath encodeCmd outputDirPath s = Some (r, s')
    \<Longrightarrow> idCnt s' = idCnt s"
  by (auto simp: spawnEncoder_def pushRunning_def Let_def split: option.splits sum.splits)

lemma idCnt_addQueue:
  "addQueue c queueItem s = Some (r, s') \<Longrightarrow> idCnt s' = idCnt s"
  unfolding addQueue_def
  by (auto split: option.splits sum.splits prod.splits
           dest!: idCnt_outputDir idCnt_spawnEncoder)

lemma idCnt_finalize_start [simp]: "idCnt (finalize_start i s) = idCnt s"
  by (simp add: finalize_start_def)

lemma idCnt_checkQueue_resume:
  assumes "checkQueue_resume c g exeId finalizeId s = Some (r, s')"
  shows "idCnt s' = idCnt s"
proof (cases g)
  case TimedOut
  with assms show ?thesis by (auto simp: checkQueue_resume_def)
next
  case Acquired
  show ?thesis
  proof (cases "waitQueue s")
    case Nil
    with assms Acquired show ?thesis by (auto simp: checkQueue_resume_def)
  next
    case (Cons a rest)
    from assms Acquired Cons obtain x s1 where
      aq: "addQueue c a (s\<lparr>waitQueue := rest\<rparr>) = Some (x, s1)"
      by (auto simp: checkQueue_resume_def split: option.splits)
    then have "idCnt s1 = idCnt s"
      using idCnt_addQueue by fastforce
    with assms aq Acquired Cons show ?thesis
      by (cases x) (auto simp: checkQueue_resume_def Let_def)
  qed
qed

lemma idCnt_finalize_resume [simp]: "idCnt (snd (finalize_resume g exeId i s)) = idCnt s"
  by (cases g) (auto simp: finalize_resume_def Let_def split: option.splits)

lemma idCnt_cancel_resume [simp]: "idCnt (snd (cancel_resume c g exeId i s)) = idCnt s"
  by (cases g) (auto simp: cancel_resume_def Let_def split: option.splits)

lemma idCnt_onExit [simp]:
  "idCnt (onExit c finalizeId queueItem outputFilePath code signal s) = idCnt s"
  by (auto simp: onExit_def exitSuccess_def exitError_def Let_def split: option.splits)

lemma push_resume_idCnt_range:
  assumes "1 \<le> idCnt s" "idCnt s \<le> MAX_SAFE_INTEGER"
  shows "1 \<le> idCnt (snd (push_resume g exeId addOption checkId s))
       \<and> idCnt (snd (push_resume g exeId addOption checkId s)) \<le> MAX_SAFE_INTEGER"
proof (cases g)
  case Acquired
  with assms show ?thesis
    by (auto simp: push_resume_idCnt MAX_SAFE_INTEGER_def)
next
  case TimedOut
  with assms show ?thesis by (simp add: push_resume_def)
qed

lemma reachable_idCnt:
  "reachable c s \<Longrightarrow> 1 \<le> idCnt s \<and> idCnt s \<le> MAX_SAFE_INTEGER"
proof (induction rule: reachable.induct)
  case (r_initial n)
  show ?case by (simp add: initialModel_def MAX_SAFE_INTEGER_def)
next
  case (r_push_start s newId)
  then show ?case by (simp add: push_start_idCnt)
next
  case (r_push_resume s g exeId addOption checkId)
  then show ?case by (simp add: push_resume_idCnt_range)
next
  case (r_emitNeedsCheckQueue s newId)
  then show ?case by (simp add: emitNeedsCheckQueue_def)
next
  case (r_checkQueue_resume s g exeId finalizeId r s')
  then show ?case using idCnt_checkQueue_resume by fastforce
next
  case (r_finalize_resume s g exeId i)
  then show ?case by simp
next
  case (r_cancel_start s newId)
  then show ?case by (simp add: cancel_start_def)
next
  case (r_cancel_resume s g exeId i)
  then show ?case by simp
next
  case (r_timerFire s t newId)
  then show ?case
    by (simp add: timerFire_def cancel_start_def split: TimerCallback.splits)
next
  case (r_timerFire_resume s g exeId t)
  then show ?case
    by (simp add: timerFire_resume_def split: TimerCallback.splits)
next
  case (r_onExit s finalizeId queueItem outputFilePath code signal)
  then show ?case by simp
qed

lemma examplePushStarted_reachable:
  "reachable c (snd (push_start ''t1'' (initialModel 1)))"
  by (rule reachable.r_push_start, rule reachable.r_initial)

section \<open>The handler of the exit, case by case\<close>

lemma getRunnginQueueItem_emit [simp]:
  "getRunnginQueueItem i (emit e s) = getRunnginQueueItem i s"
  by (simp add: getRunnginQueueItem_def)

lemma waitQueue_getExecution [simp]: "waitQueue (getExecution p i s) = waitQueue s"
  by (simp add: getExecution_def unLockExecution_def Let_def split: list.splits)

lemma effectsSince_finalize_start:
  "effects s' = effects s @ mid \<Longrightarrow>
   \<exists>es. effectsSince s (finalize_start finalizeId s') = mid @ es
        \<and> (es = [] \<or> es = [EmitUnlock (the (lockId (finalize_start finalizeId s')))])"
  using effects_getExecution[of CLEAR_QUEUE_PRIPORITY finalizeId s']
  by (auto simp: finalize_start_def effectsSince_def)

lemma exitError_eq:
  "exitError c outputFilePath s =
     s\<lparr> effects := effects s
          @ (case outputFilePath of
               None \<Rightarrow> []
             | Some p \<Rightarrow>
                 [Log Info (DeleteEncodeOutputFile p), Sleep 1000, Unlink p]
                 @ (case fileUtil_unlink c p of
                      None \<Rightarrow> []
                    | Some err \<Rightarrow>
                        [Log Error (DeleteEncodeOutputFileFailed p),
                         Log Error (ThrownError err)]))
          @ [EmitErrorEncode] \<rparr>"
  by (simp add: exitError_def emit_def Let_def split: option.splits)

lemma hasSamVideoFileIdItem_emit [simp]:
  "hasSamVideoFileIdItem v (emit e s) = hasSamVideoFileIdItem v s"
  by (simp add: hasSamVideoFileIdItem_def emit_def split: option.splits)

lemma onExit_success_eq:
  assumes "getRunnginQueueItem (encodeId queueItem) s = Some encodingQueueItem"
    and "isCanceld encodingQueueItem = False"
  shows "onExit c finalizeId queueItem outputFilePath (Some 0) signal s
      = finalize_start finalizeId
          (exitSuccess c queueItem outputFilePath
             (emit (Log Info (SuccessfullyEncod (encodeId queueItem) outputFilePath))
                (emit (Log Info (ExitCode (Some 0) signal)) s)))"
  using assms by (simp add: onExit_def)

lemma onExit_error_eq:
  assumes "getRunnginQueueItem (encodeId queueItem) s = r"
  shows "(r = None \<longrightarrow>
           onExit c finalizeId queueItem outputFilePath code signal s
             = finalize_start finalizeId
                 (exitError c outputFilePath
                    (emit (Log Fatal (EncodeItemIsRemoved (recordedId queueItem)))
                       (emit (Log Info (ExitCode code signal)) s))))
       \<and> ((\<exists>e. r = Some e \<and> isCanceld e = True) \<longrightarrow>
           onExit c finalizeId queueItem outputFilePath code signal s
             = finalize_start finalizeId
                 (exitError c outputFilePath
                    (emit (Log Info (CanceldEncode (encodeId queueItem)))
                       (emit (Log Info (ExitCode code signal)) s))))"
  using assms by (auto simp: onExit_def)

lemma exampleRemoved_eq:
  "exampleRemoved =
     \<lparr> lockId = None, exeQueue = [], listeners = [], concurrentEncodeNum = 1,
       waitQueue = [], runningQueue = [], idCnt = 2,
       effects = [EmitUnlock ''t1'', Log Info (AddNewEncode 1), EmitUnlock ''t2'',
                  EmitAddEncode 1,
                  Log Info (EncodeStart ''H264'' ''news'' ''/rec/news.ts''
                              (Some ''/rec/news.mp4'')),
                  EmitUnlock ''t5'',
                  ClearTimeout \<lparr> callback = EncodeTimeOut 1 (Some ''/rec/news.mp4''),
                                 delay = 120 \<rparr>,
                  NextTickEmitNeedsCheckQueue] \<rparr>"
  unfolding exampleRemoved_def
  by (simp add: exampleRunning_eq)
     (simp add: run_defs exampleItem_def)

lemma example_basename:
  "path_basename exampleCollaborators ''/rec/news.mp4'' = ''news.mp4''"
  by (simp add: exampleCollaborators_def exampleBasename_def)

lemma example_unlink: "fileUtil_unlink exampleCollaborators p = None"
  by (simp add: exampleCollaborators_def)

lemma example_finalize_start_free:
  "lockId s = None \<Longrightarrow> exeQueue s = [] \<Longrightarrow>
   finalize_start i s
     = s\<lparr> exeQueue := [], lockId := Some i, effects := effects s @ [EmitUnlock i],
          listeners := filter (\<lambda>l. l \<noteq> i) (listeners s @ [i]) \<rparr>"
  by (simp add: finalize_start_def getExecution_def insertTicket_def unLockExecution_def)

text \<open>The entry of the job that ends is itself an entry with the job's video file.\<close>

lemma own_entry_hasSamVideoFileIdItem:
  assumes "getRunnginQueueItem i s = Some encodingQueueItem"
  shows "hasSamVideoFileIdItem (sourceVideoFileId (encodeProgram encodingQueueItem)) s = True"
proof -
  from assms have "encodingQueueItem \<in> set (runningQueue s)"
    by (auto simp: getRunnginQueueItem_def find_Some_iff)
  then have "find (\<lambda>q. sourceVideoFileId (encodeProgram q)
                        = sourceVideoFileId (encodeProgram encodingQueueItem))
               (runningQueue s) \<noteq> None"
    by (auto simp: find_None_iff)
  then show ?thesis
    by (auto simp: hasSamVideoFileIdItem_def split: option.splits)
qed

lemma exitSuccess_effects:
  assumes "removeOriginal queueItem = True"
    and "hasSamVideoFileIdItem (sourceVideoFileId queueItem) s = True"
  shows "\<exists>f. effects (exitSuccess c queueItem outputFilePath s)
               = effects s @ [EmitFinishEncode f]
           \<and> fin_removeOriginal f = False"
  using assms by (simp add: exitSuccess_def Let_def emit_def)

lemma onExit_success_removeOriginal_False:
  assumes "getRunnginQueueItem (encodeId queueItem) s = Some encodingQueueItem"
    and "encodeProgram encodingQueueItem = queueItem"
    and "isCanceld encodingQueueItem = False"
    and "removeOriginal queueItem = True"
  shows "\<exists>f. EmitFinishEncode f
             \<in> set (effectsSince s (onExit c finalizeId queueItem outputFilePath (Some 0) signal s))
           \<and> fin_removeOriginal f = False"
proof -
  let ?s2 = "emit (Log Info (SuccessfullyEncod (encodeId queueItem) outputFilePath))
               (emit (Log Info (ExitCode (Some 0) signal)) s)"
  have "hasSamVideoFileIdItem (sourceVideoFileId queueItem) ?s2 = True"
    using own_entry_hasSamVideoFileIdItem[OF assms(1)] assms(2) by simp
  from exitSuccess_effects[OF assms(4) this, of c outputFilePath] obtain f where
    f: "effects (exitSuccess c queueItem outputFilePath ?s2) = effects ?s2 @ [EmitFinishEncode f]"
       "fin_removeOriginal f = False"
    by blast
  then have "effects (exitSuccess c queueItem outputFilePath ?s2)
               = effects s @ [Log Info (ExitCode (Some 0) signal),
                              Log Info (SuccessfullyEncod (encodeId queueItem) outputFilePath),
                              EmitFinishEncode f]"
    by simp
  from effectsSince_finalize_start[OF this, of finalizeId] obtain es where
    "effectsSince s (finalize_start finalizeId (exitSuccess c queueItem outputFilePath ?s2))
       = [Log Info (ExitCode (Some 0) signal),
          Log Info (SuccessfullyEncod (encodeId queueItem) outputFilePath),
          EmitFinishEncode f] @ es"
    by blast
  then have "EmitFinishEncode f
               \<in> set (effectsSince s
                        (onExit c finalizeId queueItem outputFilePath (Some 0) signal s))"
    by (simp add: onExit_success_eq[OF assms(1) assms(3)])
  with f(2) show ?thesis by blast
qed


section \<open>The claims about the execution gate\<close>

text \<open>
  C6. In every state the manager can be in, the ticket queue is sorted by non-increasing
  priority; \<^verbatim>\<open>getExecution\<close> puts a new ticket after all tickets of equal or higher
  priority and before all tickets of strictly lower priority, keeping the order of the
  tickets already there (so tickets of equal priority stay in the order they came); and
  when \<^verbatim>\<open>unLockExecution\<close> hands the lock over, it gives it to the head of the queue,
  whose priority no waiting ticket exceeds. For any list \<open>q'\<close> whatever, sorted or not,
  the new ticket goes just before the first ticket of strictly lower priority.
\<close>

theorem gate_queue_priority_fifo:
  assumes "reachable c s"
  shows "sorted_wrt (\<lambda>a b. priority b \<le> priority a) (exeQueue s)
    \<and> insertTicket d (exeQueue s)
        = filter (\<lambda>x. priority d \<le> priority x) (exeQueue s) @ [d]
          @ filter (\<lambda>x. priority x < priority d) (exeQueue s)
    \<and> filter (\<lambda>x. priority d \<le> priority x) (exeQueue s)
        @ filter (\<lambda>x. priority x < priority d) (exeQueue s) = exeQueue s
    \<and> (lockId s = Some holder \<and> holder \<noteq> newId \<longrightarrow>
         exeQueue (getExecution p newId s)
           = insertTicket \<lparr> qid = newId, priority = p \<rparr> (exeQueue s))
    \<and> ((lockId s = None \<or> lockId s = Some i) \<and> exeQueue s \<noteq> [] \<longrightarrow>
         lockId (unLockExecution i s) = Some (qid (hd (exeQueue s)))
         \<and> exeQueue (unLockExecution i s) = tl (exeQueue s)
         \<and> (\<forall>x \<in> set (exeQueue s). priority x \<le> priority (hd (exeQueue s))))
    \<and> insertTicket d q'
        = takeWhile (\<lambda>x. \<not> priority x < priority d) q' @ [d]
          @ dropWhile (\<lambda>x. \<not> priority x < priority d) q'"
proof (intro conjI impI)
  let ?q = "exeQueue s"
  show sorted: "sorted_wrt (\<lambda>a b. priority b \<le> priority a) ?q"
    using assms by (rule reachable_sorted)
  note tw = sorted_takeWhile_filter[OF sorted, of "priority d"]
  show "insertTicket d ?q
        = filter (\<lambda>x. priority d \<le> priority x) ?q @ [d]
          @ filter (\<lambda>x. priority x < priority d) ?q"
    using tw by (simp add: insertTicket_takeWhile)
  show "filter (\<lambda>x. priority d \<le> priority x) ?q
        @ filter (\<lambda>x. priority x < priority d) ?q = ?q"
    using tw takeWhile_dropWhile_id[of "\<lambda>x. \<not> priority x < priority d" ?q] by simp
  show "exeQueue (getExecution p newId s) = insertTicket \<lparr> qid = newId, priority = p \<rparr> ?q"
    if "lockId s = Some holder \<and> holder \<noteq> newId"
    using that by (auto simp: getExecution_def unLockExecution_def)
  show "insertTicket d q'
        = takeWhile (\<lambda>x. \<not> priority x < priority d) q' @ [d]
          @ dropWhile (\<lambda>x. \<not> priority x < priority d) q'"
    by (rule insertTicket_takeWhile)
  assume h: "(lockId s = None \<or> lockId s = Some i) \<and> ?q \<noteq> []"
  then obtain x rest where q: "?q = x # rest" by (cases ?q) auto
  with sorted show "\<forall>y \<in> set ?q. priority y \<le> priority (hd ?q)" by auto
  from h q show "lockId (unLockExecution i s) = Some (qid (hd ?q))"
    by (auto simp: unLockExecution_def)
  from h q show "exeQueue (unLockExecution i s) = tl ?q"
    by (auto simp: unLockExecution_def)
qed

text \<open>The witness: \<open>a\<close> holds the lock, \<open>b\<close> (priority 2) and \<open>c\<close> (priority 1) wait; a new
  ticket \<open>d\<close> of priority 2 goes between them, and when \<open>a\<close> releases, \<open>b\<close> gets the lock.\<close>

theorem gate_queue_priority_fifo_witness:
  "reachable exampleCollaborators exampleHeld
   \<and> exeQueue exampleHeld = [\<lparr> qid = ''b'', priority = 2 \<rparr>, \<lparr> qid = ''c'', priority = 1 \<rparr>]
   \<and> insertTicket \<lparr> qid = ''d'', priority = 2 \<rparr> (exeQueue exampleHeld)
       = [\<lparr> qid = ''b'', priority = 2 \<rparr>, \<lparr> qid = ''d'', priority = 2 \<rparr>,
          \<lparr> qid = ''c'', priority = 1 \<rparr>]
   \<and> exeQueue (getExecution 2 ''d'' exampleHeld)
       = [\<lparr> qid = ''b'', priority = 2 \<rparr>, \<lparr> qid = ''d'', priority = 2 \<rparr>,
          \<lparr> qid = ''c'', priority = 1 \<rparr>]
   \<and> lockId (unLockExecution ''a'' exampleHeld) = Some ''b''
   \<and> exeQueue (unLockExecution ''a'' exampleHeld) = [\<lparr> qid = ''c'', priority = 1 \<rparr>]"
  using gate_queue_priority_fifo [OF exampleHeld_reachable [of exampleCollaborators],
             of "\<lparr> qid = ''d'', priority = 2 \<rparr>" "''a''" "''d''" 2 "''a''"]
        exampleHeld_reachable [of exampleCollaborators]
  by (simp add: exampleHeld_eq)

text \<open>
  C9. While the lock is held, \<^verbatim>\<open>unLockExecution(id)\<close> with an identifier other than the
  holder's changes nothing: the holder stays and no ticket leaves the queue.
\<close>

theorem unLockExecution_by_other_unchanged:
  "lockId s = Some holder \<Longrightarrow> i \<noteq> holder \<Longrightarrow>
   unLockExecution i s = s
   \<and> lockId (unLockExecution i s) = Some holder
   \<and> exeQueue (unLockExecution i s) = exeQueue s"
  by (simp add: unLockExecution_def)

theorem unLockExecution_by_other_unchanged_witness:
  "lockId exampleHeld = Some ''a'' \<and> ''b'' \<noteq> ''a''
   \<and> unLockExecution ''b'' exampleHeld = exampleHeld
   \<and> exeQueue (unLockExecution ''b'' exampleHeld)
       = [\<lparr> qid = ''b'', priority = 2 \<rparr>, \<lparr> qid = ''c'', priority = 1 \<rparr>]"
  using unLockExecution_by_other_unchanged [of exampleHeld "''a''" "''b''"]
  by (simp add: exampleHeld_eq)

section \<open>The claims about push and checkQueue\<close>

text \<open>
  C7. When \<^verbatim>\<open>concurrentEncodeNum\<close> is at most 0, \<^verbatim>\<open>push\<close> throws its error (the source
  spells the message \<^verbatim>\<open>CncurrentEncodeNumIsZero\<close>) before it asks for a ticket, and no
  field of the manager changes: not the wait queue, the running queue, the counter of
  identifiers or the ticket queue. The request is not read before the throw.
\<close>

theorem push_rejects_nonpositive_limit:
  "concurrentEncodeNum s \<le> 0 \<Longrightarrow>
   push_start newId s = (Some CncurrentEncodeNumIsZero, s)"
  by (simp add: push_start_def)

theorem push_rejects_nonpositive_limit_witness:
  "concurrentEncodeNum (initialModel 0) \<le> 0
   \<and> push_start ''t1'' (initialModel 0) = (Some CncurrentEncodeNumIsZero, initialModel 0)
   \<and> exeQueue (snd (push_start ''t1'' (initialModel 0))) = []
   \<and> idCnt (snd (push_start ''t1'' (initialModel 0))) = 1"
  using push_rejects_nonpositive_limit [of "initialModel 0" "''t1''"]
  by (simp add: initialModel_def)

text \<open>
  C8. When the running queue holds at least \<^verbatim>\<open>concurrentEncodeNum\<close> entries or the wait
  queue is empty, \<^verbatim>\<open>checkQueue\<close> returns at its guard: it asks for no ticket and no field
  of the manager changes, however often it is called.
\<close>

theorem checkQueue_guard_unchanged:
  "int (length (runningQueue s)) \<ge> concurrentEncodeNum s \<or> length (waitQueue s) = 0 \<Longrightarrow>
   checkQueue_start newId s = s
   \<and> emitNeedsCheckQueue newId s = s
   \<and> checkQueue_start newId (checkQueue_start newId s) = checkQueue_start newId s"
  by (simp add: checkQueue_start_def emitNeedsCheckQueue_def)

theorem checkQueue_guard_unchanged_witness:
  "int (length (runningQueue exampleRunning)) \<ge> concurrentEncodeNum exampleRunning
   \<and> checkQueue_start ''t5'' exampleRunning = exampleRunning"
  using checkQueue_guard_unchanged [of exampleRunning "''t5''"]
  by (simp add: exampleRunning_eq)


section \<open>The claim about finalize\<close>

text \<open>
  C10. For an identifier with no entry in the running queue, \<^verbatim>\<open>finalize\<close>, once it has
  its ticket, does not throw, clears no timer, leaves the running queue as it is, gives
  the ticket back and hands the check of the queue to \<^verbatim>\<open>process.nextTick\<close>. This is the
  case \<^verbatim>\<open>checkQueue\<close> produces when \<^verbatim>\<open>addQueue\<close> throws: the job was taken from the wait
  queue, the running queue was not touched, the error event is emitted, the ticket is
  given back and \<^verbatim>\<open>finalize\<close> is called for the job.
\<close>

theorem finalize_without_entry:
  "getRunnginQueueItem i s = None \<Longrightarrow>
     finalize_resume Acquired exeId i s
       = (None, emit NextTickEmitNeedsCheckQueue (unLockExecution exeId s))
   \<and> runningQueue (snd (finalize_resume Acquired exeId i s)) = runningQueue s
   \<and> take (length (effects s)) (effects (snd (finalize_resume Acquired exeId i s))) = effects s
   \<and> (\<forall>t. ClearTimeout t \<notin> set (effectsSince s (snd (finalize_resume Acquired exeId i s))))
   \<and> last (effects (snd (finalize_resume Acquired exeId i s))) = NextTickEmitNeedsCheckQueue
   \<and> (waitQueue s0 = job # rest
        \<and> addQueue c job (s0\<lparr> waitQueue := rest \<rparr>) = Some (Inl err, s1) \<longrightarrow>
          runningQueue s1 = runningQueue s0
        \<and> checkQueue_resume c Acquired exeId' finalizeId s0
            = Some (None,
                finalize_start finalizeId
                  (unLockExecution exeId'
                    (emit EmitErrorEncode
                      (emit (Log Error (ThrownError err))
                        (emit (Log Error (CreateEncodeProcessError (encodeId job))) s1)))))
        \<and> runningQueue (snd (the (checkQueue_resume c Acquired exeId' finalizeId s0)))
            = runningQueue s0)"
proof (intro conjI impI)
  assume n: "getRunnginQueueItem i s = None"
  then have f: "filter (\<lambda>q. encodeId (encodeProgram q) \<noteq> i) (runningQueue s) = runningQueue s"
    using find_None_filter[of "\<lambda>q. encodeId (encodeProgram q) = i" "runningQueue s"]
    by (simp add: getRunnginQueueItem_def)
  then have "s\<lparr> runningQueue := filter (\<lambda>q. encodeId (encodeProgram q) \<noteq> i) (runningQueue s) \<rparr> = s"
    by simp
  with n show r: "finalize_resume Acquired exeId i s
       = (None, emit NextTickEmitNeedsCheckQueue (unLockExecution exeId s))"
    by (simp add: finalize_resume_def)
  show "runningQueue (snd (finalize_resume Acquired exeId i s)) = runningQueue s"
    by (simp add: r)
  show "take (length (effects s)) (effects (snd (finalize_resume Acquired exeId i s))) = effects s"
    by (simp add: r effects_unLockExecution)
  show "\<forall>t. ClearTimeout t \<notin> set (effectsSince s (snd (finalize_resume Acquired exeId i s)))"
    by (simp add: r effectsSince_def effects_unLockExecution)
  show "last (effects (snd (finalize_resume Acquired exeId i s))) = NextTickEmitNeedsCheckQueue"
    by (simp add: r)
next
  assume a: "waitQueue s0 = job # rest
        \<and> addQueue c job (s0\<lparr> waitQueue := rest \<rparr>) = Some (Inl err, s1)"
  then show q: "runningQueue s1 = runningQueue s0"
    using runningQueue_addQueue_fail[of c job "s0\<lparr> waitQueue := rest \<rparr>" err s1] by simp
  from a show c: "checkQueue_resume c Acquired exeId' finalizeId s0
            = Some (None,
                finalize_start finalizeId
                  (unLockExecution exeId'
                    (emit EmitErrorEncode
                      (emit (Log Error (ThrownError err))
                        (emit (Log Error (CreateEncodeProcessError (encodeId job))) s1)))))"
    by (simp add: checkQueue_resume_def)
  show "runningQueue (snd (the (checkQueue_resume c Acquired exeId' finalizeId s0)))
            = runningQueue s0"
    by (simp add: c q finalize_start_def)
qed

text \<open>The witness: the request for the profile \<open>VP9\<close>, which the configuration does not
  have.\<close>

theorem finalize_without_entry_witness:
  "getRunnginQueueItem 1 exampleBadFailed = None
   \<and> finalize_resume Acquired ''t0'' 1 exampleBadFailed
       = (None, exampleBadFailed\<lparr> lockId := None,
                   effects := effects exampleBadFailed @ [NextTickEmitNeedsCheckQueue] \<rparr>)
   \<and> waitQueue exampleBadPushed = [exampleBadItem]
   \<and> addQueue exampleCollaborators exampleBadItem (exampleBadPushed\<lparr> waitQueue := [] \<rparr>)
       = Some (Inl EncodeCommandIsNotFound, exampleBadPushed\<lparr> waitQueue := [] \<rparr>)
   \<and> checkQueue_resume exampleCollaborators Acquired ''t2'' ''t0'' exampleBadPushed
       = Some (None, exampleBadFailed)"
  using finalize_without_entry [of 1 exampleBadFailed "''t0''" exampleBadPushed exampleBadItem "[]"
                exampleCollaborators EncodeCommandIsNotFound
                "exampleBadPushed\<lparr> waitQueue := [] \<rparr>" "''t2''" "''t0''"]
  by (simp add: exampleBad_addQueue)
     (simp add: exampleBadFailed_eq exampleBadPushed_eq run_defs exampleBadItem_def)


section \<open>The claim about the counter of identifiers\<close>

text \<open>
  C5, as the source has it. The counter of identifiers starts at 1. \<^verbatim>\<open>push\<close> returns the
  counter's value and then sets the counter to 0 when it stands at
  \<^verbatim>\<open>Number.MAX_SAFE_INTEGER\<close> and increments it, in the same call. So in every state the
  manager can be in the counter lies between 1 and the bound, \<^verbatim>\<open>push\<close> never returns the
  identifier 0, below the bound the counter goes up by one, and the call that returns the
  largest identifier leaves the counter at 1, so that the next \<^verbatim>\<open>push\<close> returns the
  identifier 1.
\<close>

theorem idCnt_wraps_to_one:
  assumes "reachable c s"
  shows "1 \<le> idCnt s \<and> idCnt s \<le> MAX_SAFE_INTEGER
   \<and> fst (push_resume Acquired exeId addOption checkId s) = Inr (idCnt s)
   \<and> fst (push_resume Acquired exeId addOption checkId s) \<noteq> Inr 0
   \<and> 1 \<le> idCnt (snd (push_resume g exeId addOption checkId s))
   \<and> idCnt (snd (push_resume g exeId addOption checkId s)) \<le> MAX_SAFE_INTEGER
   \<and> (idCnt s < MAX_SAFE_INTEGER \<longrightarrow>
        idCnt (snd (push_resume Acquired exeId addOption checkId s)) = idCnt s + 1)
   \<and> (idCnt s0 = MAX_SAFE_INTEGER \<longrightarrow>
        fst (push_resume Acquired exeId addOption checkId s0) = Inr MAX_SAFE_INTEGER
        \<and> idCnt (snd (push_resume Acquired exeId addOption checkId s0)) = 1
        \<and> fst (push_resume Acquired exeId' addOption' checkId'
                 (snd (push_start exeId'
                         (snd (push_resume Acquired exeId addOption checkId s0)))))
            = Inr 1
        \<and> (idCnt s1 = idCnt (snd (push_resume Acquired exeId addOption checkId s0)) \<longrightarrow>
             fst (push_resume Acquired exeId' addOption' checkId' s1) = Inr 1))"
proof -
  from assms have r: "1 \<le> idCnt s" "idCnt s \<le> MAX_SAFE_INTEGER"
    using reachable_idCnt by blast+
  have a: "fst (push_resume Acquired exeId addOption checkId s) = Inr (idCnt s)"
    by (rule push_resume_result)
  have b: "fst (push_resume Acquired exeId addOption checkId s) \<noteq> Inr 0"
    using r(1) by (simp add: a)
  note n = push_resume_idCnt_range[OF r, of g exeId addOption checkId]
  have i: "idCnt s < MAX_SAFE_INTEGER \<longrightarrow>
        idCnt (snd (push_resume Acquired exeId addOption checkId s)) = idCnt s + 1"
    by (simp add: push_resume_idCnt)
  have w: "idCnt s0 = MAX_SAFE_INTEGER \<longrightarrow>
        fst (push_resume Acquired exeId addOption checkId s0) = Inr MAX_SAFE_INTEGER
        \<and> idCnt (snd (push_resume Acquired exeId addOption checkId s0)) = 1
        \<and> fst (push_resume Acquired exeId' addOption' checkId'
                 (snd (push_start exeId'
                         (snd (push_resume Acquired exeId addOption checkId s0)))))
            = Inr 1
        \<and> (idCnt s1 = idCnt (snd (push_resume Acquired exeId addOption checkId s0)) \<longrightarrow>
             fst (push_resume Acquired exeId' addOption' checkId' s1) = Inr 1)"
    by (simp add: push_resume_result push_resume_idCnt push_start_idCnt)
  from r a b n i w show ?thesis by blast
qed

text \<open>The witness: the first \<^verbatim>\<open>push\<close> on a fresh manager returns 1 and leaves the counter at
  2; on the manager whose counter stands at the bound, the first \<^verbatim>\<open>push\<close> returns the bound
  and the second returns 1.\<close>

theorem idCnt_wraps_to_one_witness:
  "reachable exampleCollaborators (snd (push_start ''t1'' (initialModel 1)))
   \<and> fst (push_resume Acquired ''t1'' exampleRequest ''t2''
            (snd (push_start ''t1'' (initialModel 1)))) = Inr 1
   \<and> idCnt examplePushed = 2
   \<and> idCnt (snd (push_start ''t6'' exampleSeeded)) = MAX_SAFE_INTEGER
   \<and> fst exampleFirstPush = Inr MAX_SAFE_INTEGER
   \<and> idCnt (snd exampleFirstPush) = 1
   \<and> fst exampleSecondPush = Inr 1"
proof -
  note T = idCnt_wraps_to_one [OF examplePushStarted_reachable [of exampleCollaborators],
                where exeId = "''t6''" and addOption = exampleRequest and checkId = "''t7''"
                  and ?s0.0 = "snd (push_start ''t6'' exampleSeeded)"
                  and exeId' = "''t8''" and addOption' = exampleRequest and checkId' = "''t9''"]
  have m: "idCnt (snd (push_start ''t6'' exampleSeeded)) = MAX_SAFE_INTEGER"
    by (simp add: exampleSeeded_started)
  from T m have "fst exampleFirstPush = Inr MAX_SAFE_INTEGER
     \<and> idCnt (snd exampleFirstPush) = 1 \<and> fst exampleSecondPush = Inr 1"
    unfolding exampleFirstPush_def exampleSecondPush_def by blast
  moreover have "fst (push_resume Acquired ''t1'' exampleRequest ''t2''
            (snd (push_start ''t1'' (initialModel 1)))) = Inr 1"
    using idCnt_wraps_to_one [OF examplePushStarted_reachable [of exampleCollaborators],
               of "''t1''" exampleRequest "''t2''"]
    by (simp add: push_start_idCnt initialModel_def)
  moreover have "idCnt examplePushed = 2"
    by (simp add: examplePushed_eq)
  ultimately show ?thesis
    using m examplePushStarted_reachable [of exampleCollaborators] by blast
qed

text \<open>The claim as it is written says the \<^verbatim>\<open>push\<close> after the one that returns the largest
  identifier returns 0. On the manager whose counter stands at the bound, the first
  \<^verbatim>\<open>push\<close> returns the bound and the second returns 1, not 0.\<close>

theorem idCnt_wrap_not_zero:
  "fst exampleFirstPush = Inr MAX_SAFE_INTEGER
   \<and> fst exampleSecondPush = Inr 1
   \<and> fst exampleSecondPush \<noteq> Inr 0"
  by (simp add: exampleFirstPush_def exampleSecondPush_def push_resume_result
                push_resume_idCnt push_start_idCnt exampleSeeded_def)

section \<open>The claim about the timer of a running entry\<close>

text \<open>
  C4, as the source has it. When \<^verbatim>\<open>addQueue\<close> succeeds, the entry it appends to the running
  queue carries a timer made by \<^verbatim>\<open>setTimeout\<close>. The number given to \<^verbatim>\<open>setTimeout\<close> as the
  delay is the product, as the runtime computes it, of the recording's \<^verbatim>\<open>duration\<close> and the
  profile's \<^verbatim>\<open>rate\<close>, or of \<^verbatim>\<open>duration\<close> and 4 when the profile has no rate. The product is
  passed as it is, with no conversion, and \<^verbatim>\<open>setTimeout\<close> reads its delay as milliseconds.
  When the callback runs, it logs the time out and calls \<^verbatim>\<open>cancel\<close> on the identifier of the
  job: \<^verbatim>\<open>cancel\<close> asks for its ticket and, once it has it, goes on for that identifier, so
  that an entry of the running queue with the identifier is marked as cancelled and its
  process is killed.
\<close>

theorem timer_delay_is_duration_times_rate:
  assumes "recordedDB_findId c (recordedId queueItem) = Some recorded"
    and "find (\<lambda>enc. name enc = mode queueItem) (config_encode c) = Some encodeCmd"
    and "addQueue c queueItem s = Some (Inr u, s')"
  shows "runningQueue s' = runningQueue s @ [last (runningQueue s')]
   \<and> encodeProgram (last (runningQueue s')) = queueItem
   \<and> isCanceld (last (runningQueue s')) = False
   \<and> delay (timerId (last (runningQueue s')))
       = number_times c (duration recorded)
           (case rate encodeCmd of None \<Rightarrow> 4 | Some r \<Rightarrow> r)
   \<and> timerCancels (timerId (last (runningQueue s'))) = encodeId queueItem
   \<and> timerFire (timerId (last (runningQueue s'))) newId x
       = cancel_start newId
           (emit (Log Error (EncodeProcessIsTimeOut (encodeId queueItem)
                               (timerOutput (timerId (last (runningQueue s')))))) x)
   \<and> timerFire_resume c g exeId (timerId (last (runningQueue s'))) x
       = cancel_resume c g exeId (encodeId queueItem) x
   \<and> (getRunnginQueueItem (encodeId queueItem) x = Some running \<longrightarrow>
        fst (timerFire_resume c Acquired exeId (timerId (last (runningQueue s'))) x) = None
        \<and> runningQueue
            (snd (timerFire_resume c Acquired exeId (timerId (last (runningQueue s'))) x))
           = markCanceld (encodeId queueItem) (runningQueue x)
        \<and> Kill (process running)
            \<in> set (effectsSince x
                 (snd (timerFire_resume c Acquired exeId
                         (timerId (last (runningQueue s'))) x))))"
proof -
  from addQueue_ok[OF assms(3) assms(1) assms(2)] obtain childProcess outputFilePath s1 where
    s1: "runningQueue s1 = runningQueue s"
    and s': "s' = pushRunning c childProcess queueItem recorded encodeCmd outputFilePath s1"
    by blast
  let ?t = "timerId (last (runningQueue s'))"
  have cb: "callback ?t = EncodeTimeOut (encodeId queueItem) outputFilePath"
    by (simp add: s' pushRunning_def)
  have entry: "runningQueue s' = runningQueue s @ [last (runningQueue s')]
   \<and> encodeProgram (last (runningQueue s')) = queueItem
   \<and> isCanceld (last (runningQueue s')) = False
   \<and> delay ?t = number_times c (duration recorded)
                   (case rate encodeCmd of None \<Rightarrow> 4 | Some r \<Rightarrow> r)"
    by (simp add: s' s1 pushRunning_def DEFAULT_TIMEOUT_RATE_def split: option.splits)
  have fire: "timerCancels ?t = encodeId queueItem
   \<and> timerFire ?t newId x
       = cancel_start newId
           (emit (Log Error (EncodeProcessIsTimeOut (encodeId queueItem) (timerOutput ?t))) x)
   \<and> timerFire_resume c g exeId ?t x = cancel_resume c g exeId (encodeId queueItem) x"
    by (simp add: cb timerCancels_def timerOutput_def timerFire_def timerFire_resume_def)
  have kill: "fst (timerFire_resume c Acquired exeId ?t x) = None
        \<and> runningQueue (snd (timerFire_resume c Acquired exeId ?t x))
           = markCanceld (encodeId queueItem) (runningQueue x)
        \<and> Kill (process running)
            \<in> set (effectsSince x (snd (timerFire_resume c Acquired exeId ?t x)))"
    if r: "getRunnginQueueItem (encodeId queueItem) x = Some running"
  proof -
    have eq: "timerFire_resume c Acquired exeId ?t x
                = cancel_resume c Acquired exeId (encodeId queueItem) x"
      by (simp add: cb timerFire_resume_def)
    show ?thesis
      unfolding eq using r
      by (auto simp: cancel_resume_def Let_def effectsSince_def effects_unLockExecution
               split: option.splits)
  qed
  from entry fire kill show ?thesis by blast
qed

text \<open>The witness: the job of the example is started, its timer has the delay 120, and
  when the timer's callback runs and \<^verbatim>\<open>cancel\<close> has its ticket \<open>t3\<close>, the entry is marked and
  the process 100 is killed.\<close>

theorem timer_delay_is_duration_times_rate_witness:
  "recordedDB_findId exampleCollaborators (recordedId exampleItem)
     = Some \<lparr> id_r = 5, name_r = ''news'', duration = 60 \<rparr>
   \<and> find (\<lambda>enc. name enc = mode exampleItem) (config_encode exampleCollaborators)
     = Some \<lparr> name = ''H264'', cmd = ''enc.sh'', suffix = Some ''.mp4'', rate = Some 2 \<rparr>
   \<and> addQueue exampleCollaborators exampleItem (initialModel 1)
     = Some (Inr (),
         pushRunning exampleCollaborators 100 exampleItem
           \<lparr> id_r = 5, name_r = ''news'', duration = 60 \<rparr>
           \<lparr> name = ''H264'', cmd = ''enc.sh'', suffix = Some ''.mp4'', rate = Some 2 \<rparr>
           (Some ''/rec/news.mp4'')
           (emit (Log Info (EncodeStart ''H264'' ''news'' ''/rec/news.ts''
                              (Some ''/rec/news.mp4''))) (initialModel 1)))
   \<and> delay (timerId (last (runningQueue (snd (the
         (addQueue exampleCollaborators exampleItem (initialModel 1)))))))
       = number_times exampleCollaborators 60 2
   \<and> timerCancels (timerId (last (runningQueue (snd (the
         (addQueue exampleCollaborators exampleItem (initialModel 1))))))) = 1
   \<and> getRunnginQueueItem (encodeId exampleItem) exampleRunning
       = Some \<lparr> process = 100, encodeProgram = exampleItem, isCanceld = False,
                timerId = \<lparr> callback = EncodeTimeOut 1 (Some ''/rec/news.mp4''),
                            delay = 120 \<rparr> \<rparr>
   \<and> map isCanceld (runningQueue (snd (timerFire_resume exampleCollaborators Acquired ''t3''
         (timerId (last (runningQueue (snd (the
            (addQueue exampleCollaborators exampleItem (initialModel 1)))))))
         exampleRunning))) = [True]
   \<and> Kill 100 \<in> set (effectsSince exampleRunning
         (snd (timerFire_resume exampleCollaborators Acquired ''t3''
            (timerId (last (runningQueue (snd (the
               (addQueue exampleCollaborators exampleItem (initialModel 1)))))))
            exampleRunning)))"
proof -
  have r: "recordedDB_findId exampleCollaborators (recordedId exampleItem)
     = Some \<lparr> id_r = 5, name_r = ''news'', duration = 60 \<rparr>"
    by (simp add: exampleCollaborators_def exampleItem_def)
  have e: "find (\<lambda>enc. name enc = mode exampleItem) (config_encode exampleCollaborators)
     = Some \<lparr> name = ''H264'', cmd = ''enc.sh'', suffix = Some ''.mp4'', rate = Some 2 \<rparr>"
    by (simp add: exampleCollaborators_def exampleItem_def)
  note a = example_addQueue[of "initialModel 1"]
  have h: "getRunnginQueueItem (encodeId exampleItem) exampleRunning
       = Some \<lparr> process = 100, encodeProgram = exampleItem, isCanceld = False,
                timerId = \<lparr> callback = EncodeTimeOut 1 (Some ''/rec/news.mp4''),
                            delay = 120 \<rparr> \<rparr>"
    by (simp add: exampleRunning_eq getRunnginQueueItem_def)
  have m: "map isCanceld (markCanceld (encodeId exampleItem) (runningQueue exampleRunning))
             = [True]"
    by (simp add: exampleRunning_eq)
  note T = timer_delay_is_duration_times_rate
         [OF r e a, where x = exampleRunning and exeId = "''t3''" and newId = "''t3''"
            and g = Acquired
            and running = "\<lparr> process = 100, encodeProgram = exampleItem, isCanceld = False,
                timerId = \<lparr> callback = EncodeTimeOut 1 (Some ''/rec/news.mp4''),
                            delay = 120 \<rparr> \<rparr>"]
  let ?s' = "snd (the (addQueue exampleCollaborators exampleItem (initialModel 1)))"
  let ?p = "pushRunning exampleCollaborators 100 exampleItem
           \<lparr> id_r = 5, name_r = ''news'', duration = 60 \<rparr>
           \<lparr> name = ''H264'', cmd = ''enc.sh'', suffix = Some ''.mp4'', rate = Some 2 \<rparr>
           (Some ''/rec/news.mp4'')
           (emit (Log Info (EncodeStart ''H264'' ''news'' ''/rec/news.ts''
                              (Some ''/rec/news.mp4''))) (initialModel 1))"
  have s': "?s' = ?p" by (simp add: a)
  from T have "delay (timerId (last (runningQueue ?p)))
      = number_times exampleCollaborators
          (duration \<lparr> id_r = 5, name_r = ''news'', duration = 60 \<rparr>)
          (case rate \<lparr> name = ''H264'', cmd = ''enc.sh'', suffix = Some ''.mp4'',
                       rate = Some 2 \<rparr> of None \<Rightarrow> 4 | Some r \<Rightarrow> r)"
    by blast
  then have d: "delay (timerId (last (runningQueue ?s')))
                  = number_times exampleCollaborators 60 2"
    by (simp add: s')
  from T have "timerCancels (timerId (last (runningQueue ?p))) = encodeId exampleItem"
    by blast
  moreover have "encodeId exampleItem = 1"
    by (simp add: exampleItem_def)
  ultimately have tc: "timerCancels (timerId (last (runningQueue ?s'))) = 1"
    by (simp add: s')
  from T h have "runningQueue (snd (timerFire_resume exampleCollaborators Acquired ''t3''
               (timerId (last (runningQueue ?p))) exampleRunning))
             = markCanceld (encodeId exampleItem) (runningQueue exampleRunning)
     \<and> Kill (process \<lparr> process = 100, encodeProgram = exampleItem, isCanceld = False,
                timerId = \<lparr> callback = EncodeTimeOut 1 (Some ''/rec/news.mp4''),
                            delay = 120 \<rparr> \<rparr>)
          \<in> set (effectsSince exampleRunning
               (snd (timerFire_resume exampleCollaborators Acquired ''t3''
                  (timerId (last (runningQueue ?p))) exampleRunning)))"
    by blast
  then have rq: "map isCanceld (runningQueue (snd (timerFire_resume exampleCollaborators
               Acquired ''t3'' (timerId (last (runningQueue ?s'))) exampleRunning))) = [True]"
    and k: "Kill 100 \<in> set (effectsSince exampleRunning
               (snd (timerFire_resume exampleCollaborators Acquired ''t3''
                  (timerId (last (runningQueue ?s'))) exampleRunning)))"
    by (simp_all add: s' m)
  from r e a h d tc rq k show ?thesis
    by (intro conjI)
qed

text \<open>The claim as it is written takes \<^verbatim>\<open>duration\<close> in seconds and has the timer run out
  after \<^verbatim>\<open>duration\<close> times \<^verbatim>\<open>rate\<close> seconds. For a duration of 60 and a rate of 2 that is 120
  seconds, a delay of \<open>1000 * (60 * 2)\<close> milliseconds; the delay the source gives to
  \<^verbatim>\<open>setTimeout\<close> is 120.\<close>

theorem timer_delay_not_seconds:
  "map_option duration (recordedDB_findId exampleCollaborators (recordedId exampleItem)) = Some 60
   \<and> map rate (config_encode exampleCollaborators) = [Some 2]
   \<and> map (\<lambda>q. delay (timerId q)) (runningQueue exampleRunning) = [120]
   \<and> map (\<lambda>q. delay (timerId q)) (runningQueue exampleRunning) \<noteq> [1000 * (60 * 2)]"
  by (simp add: exampleRunning_eq exampleCollaborators_def exampleItem_def)

section \<open>The claims about the handler of the exit\<close>

text \<open>
  C2, as the source has it. When the entry of the job has \<^verbatim>\<open>isCanceld\<close> set at the time the
  process exits, the handler emits no finish event. \<^verbatim>\<open>isError\<close> stays true, so after the two
  log lines it deletes the output file when there is an output path (logging a failure of
  the deletion), emits the error event once, and calls \<^verbatim>\<open>finalize\<close>. The queues are left
  as they are.
\<close>

theorem onExit_canceld_emits_error:
  assumes "getRunnginQueueItem (encodeId queueItem) s = Some encodingQueueItem"
    and "isCanceld encodingQueueItem = True"
  shows "onExit c finalizeId queueItem outputFilePath code signal s
      = finalize_start finalizeId
          (s\<lparr> effects := effects s
               @ [Log Info (ExitCode code signal), Log Info (CanceldEncode (encodeId queueItem))]
               @ (case outputFilePath of
                    None \<Rightarrow> []
                  | Some p \<Rightarrow>
                      [Log Info (DeleteEncodeOutputFile p), Sleep 1000, Unlink p]
                      @ (case fileUtil_unlink c p of
                           None \<Rightarrow> []
                         | Some err \<Rightarrow>
                             [Log Error (DeleteEncodeOutputFileFailed p),
                              Log Error (ThrownError err)]))
               @ [EmitErrorEncode] \<rparr>)
    \<and> (\<forall>f. EmitFinishEncode f
             \<notin> set (effectsSince s
                      (onExit c finalizeId queueItem outputFilePath code signal s)))
    \<and> count_list (effectsSince s (onExit c finalizeId queueItem outputFilePath code signal s))
         EmitErrorEncode = 1
    \<and> runningQueue (onExit c finalizeId queueItem outputFilePath code signal s) = runningQueue s
    \<and> waitQueue (onExit c finalizeId queueItem outputFilePath code signal s) = waitQueue s"
proof -
  let ?mid = "[Log Info (ExitCode code signal), Log Info (CanceldEncode (encodeId queueItem))]
               @ (case outputFilePath of
                    None \<Rightarrow> []
                  | Some p \<Rightarrow>
                      [Log Info (DeleteEncodeOutputFile p), Sleep 1000, Unlink p]
                      @ (case fileUtil_unlink c p of
                           None \<Rightarrow> []
                         | Some err \<Rightarrow>
                             [Log Error (DeleteEncodeOutputFileFailed p),
                              Log Error (ThrownError err)]))
               @ [EmitErrorEncode]"
  let ?s' = "s\<lparr> effects := effects s @ ?mid \<rparr>"
  have eq: "onExit c finalizeId queueItem outputFilePath code signal s = finalize_start finalizeId ?s'"
    using assms by (simp add: onExit_def exitError_eq) (simp add: emit_def)
  have "effects ?s' = effects s @ ?mid" by simp
  from effectsSince_finalize_start[OF this, of finalizeId] obtain es where
    es: "effectsSince s (finalize_start finalizeId ?s') = ?mid @ es"
        "es = [] \<or> es = [EmitUnlock (the (lockId (finalize_start finalizeId ?s')))]"
    by blast
  have nofin: "\<forall>f. EmitFinishEncode f \<notin> set (?mid @ es)"
    using es(2) by (auto split: option.splits)
  have one: "count_list (?mid @ es) EmitErrorEncode = 1"
    using es(2) by (auto split: option.splits)
  show ?thesis
    unfolding eq using nofin one es(1)
    by (simp add: finalize_start_def)
qed

theorem onExit_canceld_emits_error_witness:
  "getRunnginQueueItem (encodeId exampleItem) exampleCanceld
     = Some \<lparr> process = 100, encodeProgram = exampleItem, isCanceld = True,
              timerId = \<lparr> callback = EncodeTimeOut 1 (Some ''/rec/news.mp4''), delay = 120 \<rparr> \<rparr>
   \<and> effectsSince exampleCanceld
        (onExit exampleCollaborators ''t4'' exampleItem (Some ''/rec/news.mp4'') None
           (Some ''SIGKILL'') exampleCanceld)
       = [Log Info (ExitCode None (Some ''SIGKILL'')), Log Info (CanceldEncode 1),
          Log Info (DeleteEncodeOutputFile ''/rec/news.mp4''), Sleep 1000,
          Unlink ''/rec/news.mp4'', EmitErrorEncode, EmitUnlock ''t4'']
   \<and> count_list
        (effectsSince exampleCanceld
          (onExit exampleCollaborators ''t4'' exampleItem (Some ''/rec/news.mp4'') None
             (Some ''SIGKILL'') exampleCanceld)) EmitErrorEncode = 1"
proof -
  have h: "getRunnginQueueItem (encodeId exampleItem) exampleCanceld
     = Some \<lparr> process = 100, encodeProgram = exampleItem, isCanceld = True,
              timerId = \<lparr> callback = EncodeTimeOut 1 (Some ''/rec/news.mp4''), delay = 120 \<rparr> \<rparr>"
    by (simp add: exampleCanceld_eq getRunnginQueueItem_def)
  from onExit_canceld_emits_error [OF h, of exampleCollaborators "''t4''" "Some ''/rec/news.mp4''" None
              "Some ''SIGKILL''"] h
  show ?thesis
    by (simp add: example_unlink)
       (simp add: exampleCanceld_eq exampleItem_def effectsSince_def finalize_start_def
                  getExecution_def insertTicket_def unLockExecution_def
                  CLEAR_QUEUE_PRIPORITY_def)
qed

text \<open>The claim as it is written says the handler emits neither the finish event nor the
  error event. For the job that \<^verbatim>\<open>cancel(1)\<close> stopped, the handler emits the error event.\<close>

theorem onExit_canceld_not_silent:
  "map (\<lambda>q. (encodeId (encodeProgram q), isCanceld q)) (runningQueue exampleCanceld)
     = [(1, True)]
   \<and> effectsSince exampleCanceld
        (onExit exampleCollaborators ''t4'' exampleItem (Some ''/rec/news.mp4'') None
           (Some ''SIGKILL'') exampleCanceld)
       = [Log Info (ExitCode None (Some ''SIGKILL'')), Log Info (CanceldEncode 1),
          Log Info (DeleteEncodeOutputFile ''/rec/news.mp4''), Sleep 1000,
          Unlink ''/rec/news.mp4'', EmitErrorEncode, EmitUnlock ''t4'']
   \<and> EmitErrorEncode
        \<in> set (effectsSince exampleCanceld
                 (onExit exampleCollaborators ''t4'' exampleItem (Some ''/rec/news.mp4'') None
                    (Some ''SIGKILL'') exampleCanceld))"
proof -
  have h: "getRunnginQueueItem (encodeId exampleItem) exampleCanceld
     = Some \<lparr> process = 100, encodeProgram = exampleItem, isCanceld = True,
              timerId = \<lparr> callback = EncodeTimeOut 1 (Some ''/rec/news.mp4''), delay = 120 \<rparr> \<rparr>"
    by (simp add: exampleCanceld_eq getRunnginQueueItem_def)
  have e: "onExit exampleCollaborators ''t4'' exampleItem (Some ''/rec/news.mp4'') None
             (Some ''SIGKILL'') exampleCanceld
           = finalize_start ''t4''
               (exitError exampleCollaborators (Some ''/rec/news.mp4'')
                  (emit (Log Info (CanceldEncode (encodeId exampleItem)))
                     (emit (Log Info (ExitCode None (Some ''SIGKILL''))) exampleCanceld)))"
    using onExit_error_eq[OF h] by simp
  show ?thesis
    unfolding e
    by (simp add: exitError_eq example_unlink example_finalize_start_free exampleCanceld_eq
                  effectsSince_def emit_def exampleItem_def)
qed

text \<open>
  C3, as the source has it. When no entry of the running queue has the job's identifier
  at the time the process exits, the handler logs the fatal line and emits no finish
  event. \<^verbatim>\<open>isError\<close> stays true, so it goes on as for a failure: it deletes the output file
  when there is an output path, emits the error event once, and calls \<^verbatim>\<open>finalize\<close>, which
  asks for its ticket.
\<close>

theorem onExit_removed_takes_error_path:
  assumes "getRunnginQueueItem (encodeId queueItem) s = None"
  shows "onExit c finalizeId queueItem outputFilePath code signal s
      = finalize_start finalizeId
          (s\<lparr> effects := effects s
               @ [Log Info (ExitCode code signal),
                  Log Fatal (EncodeItemIsRemoved (recordedId queueItem))]
               @ (case outputFilePath of
                    None \<Rightarrow> []
                  | Some p \<Rightarrow>
                      [Log Info (DeleteEncodeOutputFile p), Sleep 1000, Unlink p]
                      @ (case fileUtil_unlink c p of
                           None \<Rightarrow> []
                         | Some err \<Rightarrow>
                             [Log Error (DeleteEncodeOutputFileFailed p),
                              Log Error (ThrownError err)]))
               @ [EmitErrorEncode] \<rparr>)
    \<and> (\<forall>f. EmitFinishEncode f
             \<notin> set (effectsSince s
                      (onExit c finalizeId queueItem outputFilePath code signal s)))
    \<and> count_list (effectsSince s (onExit c finalizeId queueItem outputFilePath code signal s))
         EmitErrorEncode = 1
    \<and> exeQueue (onExit c finalizeId queueItem outputFilePath code signal s)
        = exeQueue (getExecution CLEAR_QUEUE_PRIPORITY finalizeId s)
    \<and> lockId (onExit c finalizeId queueItem outputFilePath code signal s)
        = lockId (getExecution CLEAR_QUEUE_PRIPORITY finalizeId s)"
proof -
  let ?mid = "[Log Info (ExitCode code signal),
                  Log Fatal (EncodeItemIsRemoved (recordedId queueItem))]
               @ (case outputFilePath of
                    None \<Rightarrow> []
                  | Some p \<Rightarrow>
                      [Log Info (DeleteEncodeOutputFile p), Sleep 1000, Unlink p]
                      @ (case fileUtil_unlink c p of
                           None \<Rightarrow> []
                         | Some err \<Rightarrow>
                             [Log Error (DeleteEncodeOutputFileFailed p),
                              Log Error (ThrownError err)]))
               @ [EmitErrorEncode]"
  let ?s' = "s\<lparr> effects := effects s @ ?mid \<rparr>"
  have eq: "onExit c finalizeId queueItem outputFilePath code signal s = finalize_start finalizeId ?s'"
    using assms by (simp add: onExit_def exitError_eq) (simp add: emit_def)
  have "effects ?s' = effects s @ ?mid" by simp
  from effectsSince_finalize_start[OF this, of finalizeId] obtain es where
    es: "effectsSince s (finalize_start finalizeId ?s') = ?mid @ es"
        "es = [] \<or> es = [EmitUnlock (the (lockId (finalize_start finalizeId ?s')))]"
    by blast
  have nofin: "\<forall>f. EmitFinishEncode f \<notin> set (?mid @ es)"
    using es(2) by (auto split: option.splits)
  have one: "count_list (?mid @ es) EmitErrorEncode = 1"
    using es(2) by (auto split: option.splits)
  have gate: "exeQueue (finalize_start finalizeId ?s')
                = exeQueue (getExecution CLEAR_QUEUE_PRIPORITY finalizeId s)"
    "lockId (finalize_start finalizeId ?s')
                = lockId (getExecution CLEAR_QUEUE_PRIPORITY finalizeId s)"
    by (auto simp: finalize_start_def getExecution_def unLockExecution_def Let_def
             split: list.splits)
  show ?thesis
    unfolding eq using nofin one es(1) gate by simp
qed

theorem onExit_removed_takes_error_path_witness:
  "getRunnginQueueItem (encodeId exampleItem) exampleRemoved = None
   \<and> effectsSince exampleRemoved
        (onExit exampleCollaborators ''t4'' exampleItem (Some ''/rec/news.mp4'') (Some 1)
           None exampleRemoved)
       = [Log Info (ExitCode (Some 1) None), Log Fatal (EncodeItemIsRemoved 5),
          Log Info (DeleteEncodeOutputFile ''/rec/news.mp4''), Sleep 1000,
          Unlink ''/rec/news.mp4'', EmitErrorEncode, EmitUnlock ''t4'']
   \<and> count_list
        (effectsSince exampleRemoved
          (onExit exampleCollaborators ''t4'' exampleItem (Some ''/rec/news.mp4'') (Some 1)
             None exampleRemoved)) EmitErrorEncode = 1"
proof -
  have h: "getRunnginQueueItem (encodeId exampleItem) exampleRemoved = None"
    by (simp add: exampleRemoved_eq getRunnginQueueItem_def)
  from onExit_removed_takes_error_path [OF h, of exampleCollaborators "''t4''" "Some ''/rec/news.mp4''" "Some 1" None] h
  show ?thesis
    by (simp add: example_unlink)
       (simp add: exampleRemoved_eq exampleItem_def effectsSince_def finalize_start_def
                  getExecution_def insertTicket_def unLockExecution_def
                  CLEAR_QUEUE_PRIPORITY_def)
qed

text \<open>The claim as it is written says the handler stops after the fatal line: no deletion,
  no error event, no call of \<^verbatim>\<open>finalize\<close>. After \<^verbatim>\<open>finalize(1)\<close> has removed the entry, the
  handler of the job deletes the output file, emits the error event, and \<^verbatim>\<open>finalize\<close> gets
  the ticket \<open>t4\<close>.\<close>

theorem onExit_removed_does_not_stop:
  "getRunnginQueueItem (encodeId exampleItem) exampleRemoved = None
   \<and> effectsSince exampleRemoved
        (onExit exampleCollaborators ''t4'' exampleItem (Some ''/rec/news.mp4'') (Some 0)
           None exampleRemoved)
       = [Log Info (ExitCode (Some 0) None), Log Fatal (EncodeItemIsRemoved 5),
          Log Info (DeleteEncodeOutputFile ''/rec/news.mp4''), Sleep 1000,
          Unlink ''/rec/news.mp4'', EmitErrorEncode, EmitUnlock ''t4'']
   \<and> lockId (onExit exampleCollaborators ''t4'' exampleItem (Some ''/rec/news.mp4'') (Some 0)
                None exampleRemoved) = Some ''t4''"
proof -
  have h: "getRunnginQueueItem (encodeId exampleItem) exampleRemoved = None"
    by (simp add: exampleRemoved_eq getRunnginQueueItem_def)
  have e: "onExit exampleCollaborators ''t4'' exampleItem (Some ''/rec/news.mp4'') (Some 0)
             None exampleRemoved
           = finalize_start ''t4''
               (exitError exampleCollaborators (Some ''/rec/news.mp4'')
                  (emit (Log Fatal (EncodeItemIsRemoved (recordedId exampleItem)))
                     (emit (Log Info (ExitCode (Some 0) None)) exampleRemoved)))"
    using onExit_error_eq[OF h] by simp
  show ?thesis
    unfolding e
    by (simp add: exitError_eq example_unlink example_finalize_start_free exampleRemoved_eq
                  effectsSince_def emit_def exampleItem_def getRunnginQueueItem_def)
qed

text \<open>
  C1. The claim says a job that ends well with \<^verbatim>\<open>removeOriginal\<close> requested reports
  \<^verbatim>\<open>removeOriginal = true\<close> when no other entry of the wait queue or the running queue has
  its video file. In the source the handler runs before \<^verbatim>\<open>finalize\<close> has removed the job's
  own entry from the running queue, and \<^verbatim>\<open>hasSamVideoFileIdItem\<close> does not leave that entry
  out, so it always finds one (\<open>own_entry_hasSamVideoFileIdItem\<close>) and the finish event
  always carries \<^verbatim>\<open>removeOriginal = false\<close> (\<open>onExit_success_removeOriginal_False\<close>).
  Here the single job of the manager ends with exit code 0: the running queue holds its
  entry only, the wait queue is empty, and the finish event carries
  \<^verbatim>\<open>removeOriginal = false\<close>.
\<close>

theorem onExit_alone_reports_removeOriginal_false:
  "map encodeProgram (runningQueue exampleRunning) = [exampleItem]
   \<and> waitQueue exampleRunning = []
   \<and> removeOriginal exampleItem = True
   \<and> effectsSince exampleRunning
        (onExit exampleCollaborators ''t4'' exampleItem (Some ''/rec/news.mp4'') (Some 0)
           None exampleRunning)
       = [Log Info (ExitCode (Some 0) None),
          Log Info (SuccessfullyEncod 1 (Some ''/rec/news.mp4'')),
          EmitFinishEncode
            \<lparr> fin_recordedId = 5, fin_videoFileId = 7, fin_parentDirName = ''recorded'',
              fin_filePath = Some ''news.mp4'', fin_fullOutputPath = Some ''/rec/news.mp4'',
              fin_mode = ''H264'', fin_removeOriginal = False \<rparr>,
          EmitUnlock ''t4'']"
proof -
  have h: "getRunnginQueueItem (encodeId exampleItem) exampleRunning
     = Some \<lparr> process = 100, encodeProgram = exampleItem, isCanceld = False,
              timerId = \<lparr> callback = EncodeTimeOut 1 (Some ''/rec/news.mp4''), delay = 120 \<rparr> \<rparr>"
    by (simp add: exampleRunning_eq getRunnginQueueItem_def)
  have e: "onExit exampleCollaborators ''t4'' exampleItem (Some ''/rec/news.mp4'') (Some 0)
             None exampleRunning
           = finalize_start ''t4''
               (exitSuccess exampleCollaborators exampleItem (Some ''/rec/news.mp4'')
                  (emit (Log Info (SuccessfullyEncod (encodeId exampleItem)
                                     (Some ''/rec/news.mp4'')))
                     (emit (Log Info (ExitCode (Some 0) None)) exampleRunning)))"
    by (rule onExit_success_eq[OF h]) simp
  have x: "exitSuccess exampleCollaborators exampleItem (Some ''/rec/news.mp4'') s
           = emit (EmitFinishEncode
                \<lparr> fin_recordedId = 5, fin_videoFileId = 7, fin_parentDirName = ''recorded'',
                  fin_filePath = Some ''news.mp4'', fin_fullOutputPath = Some ''/rec/news.mp4'',
                  fin_mode = ''H264'', fin_removeOriginal = False \<rparr>)
               (s\<lparr> runningQueue :=
                     map (\<lambda>q. if encodeProgram q = exampleItem
                               then q\<lparr> encodeProgram := exampleItem\<lparr> removeOriginal := False \<rparr> \<rparr>
                               else q) (runningQueue s) \<rparr>)"
    if "hasSamVideoFileIdItem 7 s = True" for s
    using that
    by (simp add: exitSuccess_def Let_def example_basename)
       (simp add: exampleItem_def)
  have hs: "hasSamVideoFileIdItem 7 exampleRunning = True"
    by (simp add: hasSamVideoFileIdItem_def exampleRunning_eq exampleItem_def)
  have "hasSamVideoFileIdItem 7
          (emit (Log Info (SuccessfullyEncod (encodeId exampleItem) (Some ''/rec/news.mp4'')))
             (emit (Log Info (ExitCode (Some 0) None)) exampleRunning)) = True"
    by (simp add: hs)
  note x' = x[OF this]
  show ?thesis
    unfolding e x'
    by (simp add: example_finalize_start_free exampleRunning_eq effectsSince_def
                  emit_def exampleItem_def)
qed

end
